theory Spec2Isabelle
  imports Complex_Main "HOL-Library.Sublist"
begin

section \<open>Python values and built-in operations\<close>

text \<open>
  The analyzer moves decoded JSON through untyped Python code: the dataclass fields carry
  whatever value the external source or the language model delivered. Every such field is
  therefore a \<open>json\<close> value here, and each built-in operation that can raise returns a sum,
  \<open>Inl\<close> carrying the exception.

  A Python \<open>str\<close> is a \<open>string\<close>: one \<open>char\<close> per code point, for code points below 256.
  A dict is an association list in insertion order, read through \<open>map_of\<close>.
  A finite float is the real number it denotes; the non-finite floats are not covered.
\<close>

datatype json =
    JNull
  | JBool bool
  | JInt int
  | JFloat real
  | JStr string
  | JArr "json list"
  | JObj "(string \<times> json) list"

datatype error = TypeError | AttributeError | ValueError

definition rbind :: "error + 'a \<Rightarrow> ('a \<Rightarrow> error + 'b) \<Rightarrow> error + 'b" where
  "rbind m f = (case m of Inl e \<Rightarrow> Inl e | Inr x \<Rightarrow> f x)"

text \<open>A \<open>for\<close> loop that threads an accumulator and stops at the first exception.\<close>

fun for_each :: "('a \<Rightarrow> 'b \<Rightarrow> error + 'b) \<Rightarrow> 'a list \<Rightarrow> 'b \<Rightarrow> error + 'b" where
  "for_each step [] acc = Inr acc"
| "for_each step (x # xs) acc =
     (case step x acc of Inl e \<Rightarrow> Inl e | Inr acc' \<Rightarrow> for_each step xs acc')"

text \<open>A list comprehension with a condition that may raise.\<close>

fun filter_res :: "('a \<Rightarrow> error + bool) \<Rightarrow> 'a list \<Rightarrow> error + 'a list" where
  "filter_res p [] = Inr []"
| "filter_res p (x # xs) =
     (case p x of
        Inl e \<Rightarrow> Inl e
      | Inr b \<Rightarrow> (case filter_res p xs of
                   Inl e \<Rightarrow> Inl e
                 | Inr ys \<Rightarrow> Inr (if b then x # ys else ys)))"

text \<open>Truth value of a Python object (\<open>if x:\<close>, \<open>x or d\<close>).\<close>

fun py_truthy :: "json \<Rightarrow> bool" where
  "py_truthy JNull = False"
| "py_truthy (JBool b) = b"
| "py_truthy (JInt i) = (i \<noteq> 0)"
| "py_truthy (JFloat r) = (r \<noteq> 0)"
| "py_truthy (JStr s) = (s \<noteq> [])"
| "py_truthy (JArr xs) = (xs \<noteq> [])"
| "py_truthy (JObj kvs) = (kvs \<noteq> [])"

text \<open>
  Keys of sets and dicts: \<open>None\<close>, numbers and strings hash, lists and dicts raise
  \<open>TypeError\<close>. \<open>True\<close>, \<open>1\<close> and \<open>1.0\<close> are one key.
\<close>

datatype pykey = KNone | KNum real | KStr string

fun hash_key :: "json \<Rightarrow> error + pykey" where
  "hash_key JNull = Inr KNone"
| "hash_key (JBool b) = Inr (KNum (if b then 1 else 0))"
| "hash_key (JInt i) = Inr (KNum (of_int i))"
| "hash_key (JFloat r) = Inr (KNum r)"
| "hash_key (JStr s) = Inr (KStr s)"
| "hash_key (JArr xs) = Inl TypeError"
| "hash_key (JObj kvs) = Inl TypeError"

text \<open>\<open>str.lower()\<close> on the code points below 256: A-Z and the accented capitals.\<close>

definition lower_char :: "char \<Rightarrow> char" where
  "lower_char c =
     (let n = (of_char c :: nat) in
      if (65 \<le> n \<and> n \<le> 90) \<or> (192 \<le> n \<and> n \<le> 222 \<and> n \<noteq> 215)
      then char_of (n + 32) else c)"

definition py_lower :: "string \<Rightarrow> string" where
  "py_lower s = map lower_char s"

text \<open>\<open>x.lower()\<close> on an arbitrary value: only a \<open>str\<close> has the method.\<close>

fun str_lower :: "json \<Rightarrow> error + string" where
  "str_lower (JStr s) = Inr (py_lower s)"
| "str_lower v = Inl AttributeError"

text \<open>\<open>m in s\<close> for two strings: \<open>m\<close> occurs in \<open>s\<close> as a contiguous block.\<close>

fun str_in :: "string \<Rightarrow> string \<Rightarrow> bool" where
  "str_in m [] = (m = [])"
| "str_in m (c # cs) = (prefix m (c # cs) \<or> str_in m cs)"

text \<open>\<open>d.get(k, default)\<close>: only a dict has the method.\<close>

fun py_get :: "json \<Rightarrow> string \<Rightarrow> json \<Rightarrow> error + json" where
  "py_get (JObj kvs) k d = Inr (case map_of kvs k of Some v \<Rightarrow> v | None \<Rightarrow> d)"
| "py_get v k d = Inl AttributeError"

text \<open>Keys of a dict in insertion order, each once.\<close>

definition dict_keys :: "(string \<times> json) list \<Rightarrow> string list" where
  "dict_keys kvs = rev (remdups (rev (map fst kvs)))"

text \<open>
  \<open>for x in v\<close>: a list yields its elements, a string its characters, a dict its keys;
  \<open>None\<close> and numbers raise \<open>TypeError\<close>.
\<close>

fun py_iter :: "json \<Rightarrow> error + json list" where
  "py_iter (JArr xs) = Inr xs"
| "py_iter (JStr s) = Inr (map (\<lambda>c. JStr [c]) s)"
| "py_iter (JObj kvs) = Inr (map JStr (dict_keys kvs))"
| "py_iter v = Inl TypeError"

text \<open>\<open>x or d\<close>.\<close>

definition py_or :: "json \<Rightarrow> json \<Rightarrow> json" where
  "py_or x d = (if py_truthy x then x else d)"

text \<open>A list comprehension whose element expression may raise.\<close>

fun map_res :: "('a \<Rightarrow> error + 'b) \<Rightarrow> 'a list \<Rightarrow> error + 'b list" where
  "map_res f [] = Inr []"
| "map_res f (x # xs) =
     (case f x of
        Inl e \<Rightarrow> Inl e
      | Inr y \<Rightarrow> (case map_res f xs of Inl e \<Rightarrow> Inl e | Inr ys \<Rightarrow> Inr (y # ys)))"

section \<open>Transcript model (fireflies_client.py)\<close>

record datetime =
  year :: nat
  month :: nat
  day :: nat
  hour :: nat
  minute :: nat
  second :: nat

record Speaker =
  sp_id :: json
  sp_name :: json
  sp_email :: json
  sp_duration :: json
  sp_word_count :: json
  sp_is_host :: bool

record Sentence =
  st_index :: json
  st_text :: json
  st_speaker_id :: json
  st_speaker_name :: json
  st_start_time :: json
  st_end_time :: json
  st_raw_text :: json

record MeetingSummary =
  ms_keywords :: json
  ms_action_items :: json
  ms_outline :: json
  ms_meeting_type :: json
  ms_questions :: "json list"

record Meeting =
  m_id :: json
  m_title :: json
  m_date :: datetime
  m_duration :: json
  m_host_email :: json
  m_organizer_email :: json
  m_speakers :: "Speaker list"
  m_sentences :: "Sentence list"
  m_summary :: MeetingSummary
  m_transcript_url :: json
  m_participants :: json

subsection \<open>Meeting.get_lead_statements\<close>

text \<open>
  The marker set: the caller's identifiers as given, then the two meeting e-mails
  lower-cased. It is only tested for membership, so a list stands for the set.
\<close>

definition host_markers :: "Meeting \<Rightarrow> string list option \<Rightarrow> error + string list" where
  "host_markers M host_identifiers =
     (let hm0 = (case host_identifiers of None \<Rightarrow> [] | Some hs \<Rightarrow> hs) in
      rbind (if py_truthy (m_host_email M)
             then rbind (str_lower (m_host_email M)) (\<lambda>e. Inr (hm0 @ [e]))
             else Inr hm0) (\<lambda>hm1.
      if py_truthy (m_organizer_email M)
      then rbind (str_lower (m_organizer_email M)) (\<lambda>e. Inr (hm1 @ [e]))
      else Inr hm1))"

text \<open>\<open>x.lower() if x else ""\<close>.\<close>

definition lower_or_empty :: "json \<Rightarrow> error + string" where
  "lower_or_empty x = (if py_truthy x then str_lower x else Inr [])"

text \<open>The \<open>any(...)\<close> over the non-empty markers.\<close>

definition any_marker :: "string list \<Rightarrow> string \<Rightarrow> string \<Rightarrow> bool" where
  "any_marker hm speaker_lower email_lower =
     list_ex (\<lambda>marker. marker \<noteq> [] \<and> (str_in marker speaker_lower \<or> str_in marker email_lower)) hm"

text \<open>One pass of the loop over the speakers; \<open>ids\<close> is the set \<open>host_speaker_ids\<close>.\<close>

definition speaker_step :: "string list \<Rightarrow> Speaker \<Rightarrow> pykey list \<Rightarrow> error + pykey list" where
  "speaker_step hm speaker ids =
     rbind (lower_or_empty (sp_name speaker)) (\<lambda>speaker_lower.
     rbind (lower_or_empty (sp_email speaker)) (\<lambda>email_lower.
     if sp_is_host speaker
     then rbind (hash_key (sp_id speaker)) (\<lambda>k. Inr (ids @ [k]))
     else if any_marker hm speaker_lower email_lower
     then rbind (hash_key (sp_id speaker)) (\<lambda>k. Inr (ids @ [k]))
     else Inr ids))"

definition host_speaker_ids :: "Meeting \<Rightarrow> string list option \<Rightarrow> error + pykey list" where
  "host_speaker_ids M host_identifiers =
     rbind (host_markers M host_identifiers) (\<lambda>hm.
     for_each (speaker_step hm) (m_speakers M) [])"

definition not_in_ids :: "pykey list \<Rightarrow> Sentence \<Rightarrow> error + bool" where
  "not_in_ids ids sentence =
     rbind (hash_key (st_speaker_id sentence)) (\<lambda>k. Inr (k \<notin> set ids))"

definition get_lead_statements :: "Meeting \<Rightarrow> string list option \<Rightarrow> error + Sentence list" where
  "get_lead_statements M host_identifiers =
     rbind (host_speaker_ids M host_identifiers) (\<lambda>ids.
     filter_res (not_in_ids ids) (m_sentences M))"

subsection \<open>FirefliesClient._parse_transcript\<close>

text \<open>
  The clock and the two \<open>datetime\<close> constructors are the standard library's; they are
  parameters: \<open>fromtimestamp\<close> and \<open>fromisoformat\<close> may raise, \<open>now\<close> is the value of
  \<open>datetime.now()\<close> at the call.
\<close>

definition parse_speaker :: "json \<Rightarrow> error + Speaker" where
  "parse_speaker sp =
     rbind (py_get sp ''id'' (JStr [])) (\<lambda>i.
     rbind (py_get sp ''name'' (JStr ''Unknown'')) (\<lambda>n.
     rbind (py_get sp ''email'' JNull) (\<lambda>e.
     rbind (py_get sp ''duration'' (JInt 0)) (\<lambda>d.
     rbind (py_get sp ''word_count'' (JInt 0)) (\<lambda>w.
     Inr \<lparr>sp_id = i, sp_name = n, sp_email = e, sp_duration = d, sp_word_count = w,
          sp_is_host = False\<rparr>)))))"

definition parse_sentence :: "json \<Rightarrow> error + Sentence" where
  "parse_sentence sent =
     rbind (py_get sent ''index'' (JInt 0)) (\<lambda>i.
     rbind (py_get sent ''text'' (JStr [])) (\<lambda>t.
     rbind (py_get sent ''speaker_id'' (JStr [])) (\<lambda>sid.
     rbind (py_get sent ''speaker_name'' (JStr ''Unknown'')) (\<lambda>sn.
     rbind (py_get sent ''start_time'' (JInt 0)) (\<lambda>st.
     rbind (py_get sent ''end_time'' (JInt 0)) (\<lambda>et.
     rbind (py_get sent ''raw_text'' JNull) (\<lambda>rt.
     Inr \<lparr>st_index = i, st_text = t, st_speaker_id = sid, st_speaker_name = sn,
          st_start_time = st, st_end_time = et, st_raw_text = rt\<rparr>)))))))"

text \<open>\<open>data.get(k, d) or d\<close>.\<close>

definition get_or :: "json \<Rightarrow> string \<Rightarrow> json \<Rightarrow> error + json" where
  "get_or data k d = rbind (py_get data k d) (\<lambda>v. Inr (py_or v d))"

definition parse_summary :: "json \<Rightarrow> error + MeetingSummary" where
  "parse_summary data =
     rbind (get_or data ''summary'' (JObj [])) (\<lambda>summary_data.
     rbind (get_or data ''ai_filters'' (JObj [])) (\<lambda>ai_filters.
     rbind (get_or ai_filters ''questions'' (JArr [])) (\<lambda>questions_data.
     rbind (get_or summary_data ''keywords'' (JArr [])) (\<lambda>kw.
     rbind (get_or summary_data ''action_items'' (JArr [])) (\<lambda>ai.
     rbind (get_or summary_data ''outline'' (JArr [])) (\<lambda>ol.
     rbind (py_get summary_data ''meeting_type'' JNull) (\<lambda>mt.
     rbind (py_iter questions_data) (\<lambda>qs.
     rbind (map_res (\<lambda>q. py_get q ''text'' (JStr [])) qs) (\<lambda>qtexts.
     Inr \<lparr>ms_keywords = kw, ms_action_items = ai, ms_outline = ol, ms_meeting_type = mt,
          ms_questions = qtexts\<rparr>)))))))))"

text \<open>\<open>s.replace("Z", "+00:00")\<close>.\<close>

definition replace_Z :: "string \<Rightarrow> string" where
  "replace_Z s = concat (map (\<lambda>c. if c = CHR ''Z'' then ''+00:00'' else [c]) s)"

text \<open>
  The date: a number (\<open>bool\<close> is an \<open>int\<close> for \<open>isinstance\<close>) is milliseconds, a string is
  ISO text, anything else is the current time.
\<close>

fun parse_date ::
  "(real \<Rightarrow> error + datetime) \<Rightarrow> (string \<Rightarrow> error + datetime) \<Rightarrow> datetime \<Rightarrow> json
     \<Rightarrow> error + datetime" where
  "parse_date fromtimestamp fromisoformat now (JInt i) = fromtimestamp (of_int i / 1000)"
| "parse_date fromtimestamp fromisoformat now (JBool b) = fromtimestamp ((if b then 1 else 0) / 1000)"
| "parse_date fromtimestamp fromisoformat now (JFloat r) = fromtimestamp (r / 1000)"
| "parse_date fromtimestamp fromisoformat now (JStr s) = fromisoformat (replace_Z s)"
| "parse_date fromtimestamp fromisoformat now v = Inr now"

definition parse_transcript ::
  "(real \<Rightarrow> error + datetime) \<Rightarrow> (string \<Rightarrow> error + datetime) \<Rightarrow> datetime \<Rightarrow> json
     \<Rightarrow> error + Meeting" where
  "parse_transcript fromtimestamp fromisoformat now data =
     rbind (py_get data ''speakers'' (JArr [])) (\<lambda>sps.
     rbind (py_iter sps) (\<lambda>sp_items.
     rbind (map_res parse_speaker sp_items) (\<lambda>speakers.
     rbind (py_get data ''sentences'' (JArr [])) (\<lambda>sents.
     rbind (py_iter sents) (\<lambda>sent_items.
     rbind (map_res parse_sentence sent_items) (\<lambda>sentences.
     rbind (parse_summary data) (\<lambda>summary.
     rbind (py_get data ''date'' JNull) (\<lambda>date_value.
     rbind (parse_date fromtimestamp fromisoformat now date_value) (\<lambda>meeting_date.
     rbind (py_get data ''id'' (JStr [])) (\<lambda>i.
     rbind (py_get data ''title'' (JStr ''Untitled Meeting'')) (\<lambda>title.
     rbind (py_get data ''duration'' (JInt 0)) (\<lambda>duration.
     rbind (py_get data ''host_email'' JNull) (\<lambda>host_email.
     rbind (py_get data ''organizer_email'' JNull) (\<lambda>organizer_email.
     rbind (py_get data ''transcript_url'' JNull) (\<lambda>transcript_url.
     rbind (get_or data ''participants'' (JArr [])) (\<lambda>participants.
     Inr \<lparr>m_id = i, m_title = title, m_date = meeting_date, m_duration = duration,
          m_host_email = host_email, m_organizer_email = organizer_email,
          m_speakers = speakers, m_sentences = sentences, m_summary = summary,
          m_transcript_url = transcript_url, m_participants = participants\<rparr>))))))))))))))))"

subsection \<open>Vocabulary for the attribution properties\<close>

text \<open>The lower-cased name or e-mail the loop compares against; empty when there is none.\<close>

definition lower_text :: "json \<Rightarrow> string" where
  "lower_text x = (case x of JStr s \<Rightarrow> py_lower s | _ \<Rightarrow> [])"

text \<open>Some non-empty marker occurs in the speaker's lower-cased name or e-mail.\<close>

definition marker_match :: "string list \<Rightarrow> Speaker \<Rightarrow> bool" where
  "marker_match hm speaker =
     (\<exists>marker\<in>set hm. marker \<noteq> [] \<and>
        (str_in marker (lower_text (sp_name speaker)) \<or>
         str_in marker (lower_text (sp_email speaker))))"


fun hashable :: "json \<Rightarrow> bool" where
  "hashable (JArr xs) = False"
| "hashable (JObj kvs) = False"
| "hashable v = True"


subsection \<open>Example meetings\<close>

definition ex_date :: datetime where
  "ex_date = \<lparr>year = 2025, month = 1, day = 15, hour = 10, minute = 30, second = 0\<rparr>"

definition ex_summary :: MeetingSummary where
  "ex_summary = \<lparr>ms_keywords = JArr [], ms_action_items = JArr [], ms_outline = JArr [],
     ms_meeting_type = JNull, ms_questions = []\<rparr>"

definition mk_speaker :: "string \<Rightarrow> string \<Rightarrow> bool \<Rightarrow> Speaker" where
  "mk_speaker i n h = \<lparr>sp_id = JStr i, sp_name = JStr n, sp_email = JNull, sp_duration = JInt 0,
     sp_word_count = JInt 0, sp_is_host = h\<rparr>"

definition mk_sentence :: "int \<Rightarrow> string \<Rightarrow> string \<Rightarrow> string \<Rightarrow> Sentence" where
  "mk_sentence i t sid sn = \<lparr>st_index = JInt i, st_text = JStr t, st_speaker_id = JStr sid,
     st_speaker_name = JStr sn, st_start_time = JInt 0, st_end_time = JInt 0,
     st_raw_text = JNull\<rparr>"

definition mk_meeting :: "Speaker list \<Rightarrow> Sentence list \<Rightarrow> Meeting" where
  "mk_meeting sps sts = \<lparr>m_id = JStr ''m1'', m_title = JStr ''Demo'', m_date = ex_date,
     m_duration = JInt 30, m_host_email = JNull, m_organizer_email = JNull,
     m_speakers = sps, m_sentences = sts, m_summary = ex_summary,
     m_transcript_url = JNull, m_participants = JArr []\<rparr>"

text \<open>Alice carries the host flag, Bob is a lead; Bob speaks first and last.\<close>

definition ex_meeting :: Meeting where
  "ex_meeting = mk_meeting [mk_speaker ''1'' ''Alice'' True, mk_speaker ''2'' ''Bob'' False]
     [mk_sentence 0 ''Hi'' ''2'' ''Bob'', mk_sentence 1 ''Hello'' ''1'' ''Alice'',
      mk_sentence 2 ''Price?'' ''2'' ''Bob'']"

text \<open>One unflagged speaker, Alice, with one sentence.\<close>

definition alice_meeting :: Meeting where
  "alice_meeting = mk_meeting [mk_speaker ''1'' ''Alice'' False] [mk_sentence 0 ''Hi'' ''1'' ''Alice'']"

text \<open>A transcript as the detail query delivers it: two speakers, no host flag anywhere.\<close>

definition ex_transcript :: json where
  "ex_transcript = JObj
     [(''id'', JStr ''t1''), (''title'', JStr ''Demo''), (''date'', JInt 1736937000000),
      (''host_email'', JStr ''Alice@Example.com''),
      (''speakers'', JArr [JObj [(''id'', JInt 0), (''name'', JStr ''Alice'')],
                          JObj [(''id'', JInt 1), (''name'', JStr ''Bob'')]]),
      (''sentences'', JArr [JObj [(''index'', JInt 0), (''text'', JStr ''Hi''),
                                 (''speaker_id'', JInt 1), (''speaker_name'', JStr ''Bob'')]])]"

section \<open>Analysis engine (ai_analyzer.py)\<close>

subsection \<open>Formatting values into text\<close>

definition digit_char :: "nat \<Rightarrow> char" where
  "digit_char d = ''0123456789'' ! d"

function str_nat :: "nat \<Rightarrow> string" where
  "str_nat n = (if n < 10 then [digit_char n] else str_nat (n div 10) @ [digit_char (n mod 10)])"
  by pat_completeness auto
termination
  by (relation "measure (\<lambda>n. n)") auto

definition str_int :: "int \<Rightarrow> string" where
  "str_int i = (if i < 0 then CHR ''-'' # str_nat (nat (- i)) else str_nat (nat i))"

text \<open>
  \<open>str(x)\<close>, as an f-string applies it. A string is itself; \<open>None\<close>, the truth values and
  the integers have fixed spellings; the text of a float, a list or a dict is the
  interpreter's \<open>repr\<close>, taken as the parameter \<open>repr_other\<close>.
\<close>

fun py_str :: "(json \<Rightarrow> string) \<Rightarrow> json \<Rightarrow> string" where
  "py_str repr_other (JStr s) = s"
| "py_str repr_other JNull = ''None''"
| "py_str repr_other (JBool b) = (if b then ''True'' else ''False'')"
| "py_str repr_other (JInt i) = str_int i"
| "py_str repr_other v = repr_other v"

text \<open>\<open>"\n".join(lines)\<close>.\<close>

fun join_lines :: "string list \<Rightarrow> string" where
  "join_lines [] = []"
| "join_lines [l] = l"
| "join_lines (l # m # ls) = l @ [CHR 0x0A] @ join_lines (m # ls)"

subsection \<open>AIAnalyzer._format_statements\<close>

definition statement_line :: "(json \<Rightarrow> string) \<Rightarrow> Sentence \<Rightarrow> string" where
  "statement_line repr_other stmt =
     ''['' @ py_str repr_other (st_speaker_name stmt) @ '']: '' @ py_str repr_other (st_text stmt)"

text \<open>The loop with its \<open>break\<close>; \<open>formatted\<close> and \<open>total_chars\<close> are the loop's variables.\<close>

fun format_loop ::
  "(json \<Rightarrow> string) \<Rightarrow> int \<Rightarrow> Sentence list \<Rightarrow> string list \<Rightarrow> int \<Rightarrow> string list" where
  "format_loop repr_other max_chars [] formatted total_chars = formatted"
| "format_loop repr_other max_chars (stmt # rest) formatted total_chars =
     (let line = statement_line repr_other stmt in
      if total_chars + int (length line) > max_chars then formatted
      else format_loop repr_other max_chars rest (formatted @ [line])
             (total_chars + int (length line)))"

definition format_statements :: "(json \<Rightarrow> string) \<Rightarrow> Sentence list \<Rightarrow> int \<Rightarrow> string" where
  "format_statements repr_other statements max_chars =
     join_lines (format_loop repr_other max_chars statements [] 0)"

text \<open>The default of the parameter \<open>max_chars\<close>.\<close>

definition default_max_chars :: int where
  "default_max_chars = 50000"

text \<open>A statement with an empty speaker name and 24996 letters of text: a line of 25000.\<close>

definition long_statement :: Sentence where
  "long_statement = \<lparr>st_index = JInt 0, st_text = JStr (replicate 24996 CHR ''a''),
     st_speaker_id = JStr ''2'', st_speaker_name = JStr [], st_start_time = JInt 0,
     st_end_time = JInt 0, st_raw_text = JNull\<rparr>"

subsection \<open>Result records\<close>

record CustomerProfile =
  cp_company_name :: json
  cp_industry :: json
  cp_company_size :: json
  cp_decision_maker_role :: json
  cp_purchasing_authority :: json
  cp_business_context :: json
  cp_current_solutions :: json
  cp_budget_indicators :: json
  cp_timeline_urgency :: json
  cp_supporting_quotes :: json

record PainPoint =
  pp_category :: json
  pp_description :: json
  pp_direct_quote :: json
  pp_speaker :: json
  pp_impact_level :: json
  pp_context :: json
  pp_desired_outcome :: json
  pp_impact_statement :: json

record Question =
  q_text :: json
  q_speaker :: json
  q_category :: json
  q_underlying_concern :: json
  q_context :: json

record Objection =
  obj_objection_text :: json
  obj_direct_quote :: json
  obj_speaker :: json
  obj_emotional_undertone :: json
  obj_root_cause :: json
  obj_resolution_pathway :: json
  obj_conversion_trigger :: json

record LanguagePattern =
  lp_category :: json
  lp_phrase :: json
  lp_context :: json
  lp_speaker :: json
  lp_usage_count :: int

text \<open>
  \<open>top_pain_categories\<close> is a dict: an association list in insertion order whose keys are
  the objects first inserted, compared through their hash keys.
\<close>

record AnalysisResult =
  timestamp :: datetime
  meetings_analyzed :: nat
  total_lead_statements :: nat
  customer_profiles :: "CustomerProfile list"
  pain_points :: "PainPoint list"
  questions :: "Question list"
  objections :: "Objection list"
  language_patterns :: "LanguagePattern list"
  top_pain_categories :: "(json \<times> int) list"
  common_questions :: "json list"
  conversion_triggers :: json
  value_propositions :: json
  marketing_recommendations :: json
  messaging_guidelines :: json

text \<open>\<open>AnalysisResult(meetings_analyzed=m, total_lead_statements=t)\<close>; \<open>now\<close> is the clock.\<close>

definition new_result :: "datetime \<Rightarrow> nat \<Rightarrow> nat \<Rightarrow> AnalysisResult" where
  "new_result now m t =
     \<lparr>timestamp = now, meetings_analyzed = m, total_lead_statements = t,
      customer_profiles = [], pain_points = [], questions = [], objections = [],
      language_patterns = [], top_pain_categories = [], common_questions = [],
      conversion_triggers = JArr [], value_propositions = JArr [],
      marketing_recommendations = JArr [], messaging_guidelines = JArr []\<rparr>"

subsection \<open>AIAnalyzer._build_result\<close>

definition build_customer_profile :: "json \<Rightarrow> error + CustomerProfile" where
  "build_customer_profile cp =
     rbind (py_get cp ''company_name'' (JStr [])) (\<lambda>a.
     rbind (py_get cp ''industry'' (JStr [])) (\<lambda>b.
     rbind (py_get cp ''company_size'' (JStr [])) (\<lambda>c.
     rbind (py_get cp ''decision_maker_role'' (JStr [])) (\<lambda>d.
     rbind (py_get cp ''purchasing_authority'' (JStr [])) (\<lambda>e.
     rbind (py_get cp ''business_context'' (JStr [])) (\<lambda>f.
     rbind (py_get cp ''current_solutions'' (JArr [])) (\<lambda>g.
     rbind (py_get cp ''budget_indicators'' (JStr [])) (\<lambda>h.
     rbind (py_get cp ''timeline_urgency'' (JStr [])) (\<lambda>i.
     rbind (py_get cp ''supporting_quotes'' (JArr [])) (\<lambda>j.
     Inr \<lparr>cp_company_name = a, cp_industry = b, cp_company_size = c,
          cp_decision_maker_role = d, cp_purchasing_authority = e, cp_business_context = f,
          cp_current_solutions = g, cp_budget_indicators = h, cp_timeline_urgency = i,
          cp_supporting_quotes = j\<rparr>))))))))))"

definition build_pain_point :: "json \<Rightarrow> error + PainPoint" where
  "build_pain_point pp =
     rbind (py_get pp ''category'' (JStr ''Sonstiges'')) (\<lambda>a.
     rbind (py_get pp ''description'' (JStr [])) (\<lambda>b.
     rbind (py_get pp ''direct_quote'' (JStr [])) (\<lambda>c.
     rbind (py_get pp ''speaker'' (JStr [])) (\<lambda>d.
     rbind (py_get pp ''impact_level'' (JStr ''Mittel'')) (\<lambda>e.
     rbind (py_get pp ''context'' (JStr [])) (\<lambda>f.
     rbind (py_get pp ''desired_outcome'' (JStr [])) (\<lambda>g.
     rbind (py_get pp ''impact_statement'' (JStr [])) (\<lambda>h.
     Inr \<lparr>pp_category = a, pp_description = b, pp_direct_quote = c, pp_speaker = d,
          pp_impact_level = e, pp_context = f, pp_desired_outcome = g,
          pp_impact_statement = h\<rparr>))))))))"

definition build_question :: "json \<Rightarrow> error + Question" where
  "build_question q =
     rbind (py_get q ''text'' (JStr [])) (\<lambda>a.
     rbind (py_get q ''speaker'' (JStr [])) (\<lambda>b.
     rbind (py_get q ''category'' (JStr ''Allgemein'')) (\<lambda>c.
     rbind (py_get q ''underlying_concern'' (JStr [])) (\<lambda>d.
     rbind (py_get q ''context'' (JStr [])) (\<lambda>e.
     Inr \<lparr>q_text = a, q_speaker = b, q_category = c, q_underlying_concern = d,
          q_context = e\<rparr>)))))"

definition build_objection :: "json \<Rightarrow> error + Objection" where
  "build_objection obj =
     rbind (py_get obj ''objection_text'' (JStr [])) (\<lambda>a.
     rbind (py_get obj ''direct_quote'' (JStr [])) (\<lambda>b.
     rbind (py_get obj ''speaker'' (JStr [])) (\<lambda>c.
     rbind (py_get obj ''emotional_undertone'' (JStr [])) (\<lambda>d.
     rbind (py_get obj ''root_cause'' (JStr [])) (\<lambda>e.
     rbind (py_get obj ''resolution_pathway'' (JStr [])) (\<lambda>f.
     rbind (py_get obj ''conversion_trigger'' (JStr [])) (\<lambda>g.
     Inr \<lparr>obj_objection_text = a, obj_direct_quote = b, obj_speaker = c,
          obj_emotional_undertone = d, obj_root_cause = e, obj_resolution_pathway = f,
          obj_conversion_trigger = g\<rparr>)))))))"

text \<open>The constructor call passes no \<open>usage_count\<close>: the field takes its default, 1.\<close>

definition build_language_pattern :: "json \<Rightarrow> error + LanguagePattern" where
  "build_language_pattern lp =
     rbind (py_get lp ''category'' (JStr [])) (\<lambda>a.
     rbind (py_get lp ''phrase'' (JStr [])) (\<lambda>b.
     rbind (py_get lp ''context'' (JStr [])) (\<lambda>c.
     rbind (py_get lp ''speaker'' (JStr [])) (\<lambda>d.
     Inr \<lparr>lp_category = a, lp_phrase = b, lp_context = c, lp_speaker = d,
          lp_usage_count = 1\<rparr>))))"

text \<open>\<open>for x in analysis_data.get(key, []): result.xs.append(build(x))\<close>.\<close>

definition build_records :: "json \<Rightarrow> string \<Rightarrow> (json \<Rightarrow> error + 'a) \<Rightarrow> error + 'a list" where
  "build_records analysis_data key build =
     rbind (py_get analysis_data key (JArr [])) (\<lambda>v.
     rbind (py_iter v) (\<lambda>items.
     map_res build items))"

text \<open>\<open>d[cat] = d.get(cat, 0) + 1\<close>, with \<open>k\<close> the hash key of \<open>cat\<close>.\<close>

fun incr_key :: "pykey \<Rightarrow> json \<Rightarrow> (json \<times> int) list \<Rightarrow> (json \<times> int) list" where
  "incr_key k cat [] = [(cat, 0 + 1)]"
| "incr_key k cat ((c, n) # d) =
     (if hash_key c = Inr k then (c, n + 1) # d else (c, n) # incr_key k cat d)"

definition count_category :: "PainPoint \<Rightarrow> (json \<times> int) list \<Rightarrow> error + (json \<times> int) list" where
  "count_category pp d = rbind (hash_key (pp_category pp)) (\<lambda>k. Inr (incr_key k (pp_category pp) d))"

definition build_result ::
  "datetime \<Rightarrow> json \<Rightarrow> Meeting list \<Rightarrow> Sentence list \<Rightarrow> error + AnalysisResult" where
  "build_result now analysis_data meetings lead_statements =
     rbind (build_records analysis_data ''customer_profiles'' build_customer_profile) (\<lambda>cps.
     rbind (build_records analysis_data ''pain_points'' build_pain_point) (\<lambda>pps.
     rbind (build_records analysis_data ''questions'' build_question) (\<lambda>qs.
     rbind (build_records analysis_data ''objections'' build_objection) (\<lambda>objs.
     rbind (build_records analysis_data ''language_patterns'' build_language_pattern) (\<lambda>lps.
     rbind (py_get analysis_data ''value_propositions'' (JArr [])) (\<lambda>vps.
     rbind (py_get analysis_data ''marketing_recommendations'' (JArr [])) (\<lambda>mrs.
     rbind (py_get analysis_data ''messaging_guidelines'' (JArr [])) (\<lambda>mgs.
     rbind (py_get analysis_data ''conversion_triggers'' (JArr [])) (\<lambda>cts.
     rbind (for_each count_category pps []) (\<lambda>counts.
     Inr ((new_result now (length meetings) (length lead_statements))
          \<lparr>customer_profiles := cps, pain_points := pps, questions := qs,
           objections := objs, language_patterns := lps,
           value_propositions := vps, marketing_recommendations := mrs,
           messaging_guidelines := mgs, conversion_triggers := cts,
           top_pain_categories := counts,
           common_questions := map q_text (take 10 qs)\<rparr>)))))))))))"

subsection \<open>AIAnalyzer._parse_response\<close>

text \<open>
  \<open>re.search(r'\{[\s\S]*\}', response)\<close>: the leftmost match starts at the first brace
  that has a closing brace after it, and the greedy star carries it to the last closing
  brace of the text.
\<close>

definition json_match :: "string \<Rightarrow> string option" where
  "json_match response =
     (let from_open = dropWhile (\<lambda>c. c \<noteq> CHR ''{'') response;
          span = rev (dropWhile (\<lambda>c. c \<noteq> CHR ''}'') (rev from_open))
      in if span = [] then None else Some span)"

text \<open>
  \<open>json.loads\<close> is the parameter \<open>loads\<close>: \<open>None\<close> stands for \<open>JSONDecodeError\<close>.
\<close>

definition parse_response :: "(string \<Rightarrow> json option) \<Rightarrow> string \<Rightarrow> json" where
  "parse_response loads response =
     (case loads response of
        Some v \<Rightarrow> v
      | None \<Rightarrow>
          (case json_match response of
             Some m \<Rightarrow> (case loads m of Some v \<Rightarrow> v | None \<Rightarrow> JObj [])
           | None \<Rightarrow> JObj []))"

subsection \<open>AIAnalyzer.analyze_meetings\<close>

text \<open>
  The tail of \<open>analyze_meetings\<close>, from the provider's answer on: \<open>response\<close> is what
  \<open>_call_ai\<close> did, the text it returned or the exception it raised. The \<open>try\<close> block covers
  the call and the parsing; \<open>_build_result\<close> runs after it, outside.
\<close>

definition ingest_response ::
  "(string \<Rightarrow> json option) \<Rightarrow> datetime \<Rightarrow> error + string \<Rightarrow> Meeting list \<Rightarrow> Sentence list
     \<Rightarrow> error + AnalysisResult" where
  "ingest_response loads now response meetings all_lead_statements =
     (let analysis_data = (case response of
                             Inl e \<Rightarrow> JObj []
                           | Inr text \<Rightarrow> parse_response loads text)
      in build_result now analysis_data meetings all_lead_statements)"

definition analyze_meetings ::
  "(string \<Rightarrow> json option) \<Rightarrow> datetime \<Rightarrow> error + string \<Rightarrow> Meeting list \<Rightarrow> string list option
     \<Rightarrow> error + AnalysisResult" where
  "analyze_meetings loads now response meetings host_identifiers =
     (if meetings = [] then Inr (new_result now 0 0)
      else
        rbind (map_res (\<lambda>meeting. get_lead_statements meeting host_identifiers) meetings) (\<lambda>lss.
        let all_lead_statements = concat lss in
        if all_lead_statements = [] then Inr (new_result now (length meetings) 0)
        else ingest_response loads now response meetings all_lead_statements))"

section \<open>The JSON decoder (json.loads)\<close>

text \<open>
  The standard library's decoder, written out so that concrete response texts can be
  decoded: the scanner, the string, number, array and object readers of \<open>json.decoder\<close>.
  The recursion between values, arrays and objects runs on fuel; \<open>json_loads\<close> supplies two
  units per character, and each call hands one unit less to the calls below it, which
  start at least one character further at every second step. Three things the strings and
  numbers of this model cannot hold are given no value: a \<open>\u\<close> escape from 256 on, the
  constants \<open>NaN\<close> and \<open>Infinity\<close>, and the rounding of a decimal to a binary float (a float
  is read as the decimal it spells).
\<close>

definition is_ws :: "char \<Rightarrow> bool" where
  "is_ws c = (c = CHR '' '' \<or> c = CHR 0x09 \<or> c = CHR 0x0A \<or> c = CHR 0x0D)"

definition skip_ws :: "string \<Rightarrow> string" where
  "skip_ws s = dropWhile is_ws s"

definition is_digit :: "char \<Rightarrow> bool" where
  "is_digit c = (c \<in> set ''0123456789'')"

definition digit_val :: "char \<Rightarrow> nat" where
  "digit_val c = (of_char c :: nat) - 48"

definition nat_of_digits :: "string \<Rightarrow> nat" where
  "nat_of_digits ds = foldl (\<lambda>a c. 10 * a + digit_val c) 0 ds"

definition hex_val :: "char \<Rightarrow> nat option" where
  "hex_val c =
     (if is_digit c then Some ((of_char c :: nat) - 48)
      else if c \<in> set ''abcdef'' then Some ((of_char c :: nat) - 87)
      else if c \<in> set ''ABCDEF'' then Some ((of_char c :: nat) - 55)
      else None)"

text \<open>The character a backslash escape stands for.\<close>

definition unescape :: "char \<Rightarrow> char option" where
  "unescape e =
     (if e = CHR 0x22 then Some (CHR 0x22)
      else if e = CHR 0x5C then Some (CHR 0x5C)
      else if e = CHR ''/'' then Some (CHR ''/'')
      else if e = CHR ''b'' then Some (CHR 0x08)
      else if e = CHR ''f'' then Some (CHR 0x0C)
      else if e = CHR ''n'' then Some (CHR 0x0A)
      else if e = CHR ''r'' then Some (CHR 0x0D)
      else if e = CHR ''t'' then Some (CHR 0x09)
      else None)"

definition decode_u :: "char \<Rightarrow> char \<Rightarrow> char \<Rightarrow> char \<Rightarrow> char option" where
  "decode_u a b c d =
     (case (hex_val a, hex_val b, hex_val c, hex_val d) of
        (Some x, Some y, Some z, Some w) \<Rightarrow>
          (let code = 4096 * x + 256 * y + 16 * z + w in
           if code < 256 then Some (char_of code) else None)
      | _ \<Rightarrow> None)"

definition cons_char :: "char \<Rightarrow> (string \<times> string) option \<Rightarrow> (string \<times> string) option" where
  "cons_char c r = (case r of None \<Rightarrow> None | Some (s, rest) \<Rightarrow> Some (c # s, rest))"

text \<open>
  The string reader, started after the opening quote: it returns the string and the text
  after the closing quote. A raw control character ends it with an error.
\<close>

fun scan_string :: "string \<Rightarrow> (string \<times> string) option" where
  "scan_string [] = None"
| "scan_string (c # cs) =
     (if c = CHR 0x22 then Some ([], cs)
      else if c = CHR 0x5C then
        (case cs of
           [] \<Rightarrow> None
         | e # cs1 \<Rightarrow>
             if e = CHR ''u'' then
               (case cs1 of
                  a # b # c' # d # cs2 \<Rightarrow>
                    (case decode_u a b c' d of
                       None \<Rightarrow> None
                     | Some ch \<Rightarrow> cons_char ch (scan_string cs2))
                | _ \<Rightarrow> None)
             else
               (case unescape e of
                  None \<Rightarrow> None
                | Some ch \<Rightarrow> cons_char ch (scan_string cs1)))
      else if (of_char c :: nat) < 32 then None
      else cons_char c (scan_string cs))"

text \<open>
  The number pattern \<open>(-?(?:0|[1-9][0-9]*))(\.[0-9]+)?([eE][-+]?[0-9]+)?\<close>: an integer
  without fraction and exponent, a float otherwise.
\<close>

definition scan_int_part :: "string \<Rightarrow> (string \<times> string) option" where
  "scan_int_part s =
     (case s of
        [] \<Rightarrow> None
      | c # cs \<Rightarrow>
          if c = CHR ''0'' then Some ([c], cs)
          else if is_digit c then Some (c # takeWhile is_digit cs, dropWhile is_digit cs)
          else None)"

definition scan_frac :: "string \<Rightarrow> string option \<times> string" where
  "scan_frac s =
     (case s of
        c # cs \<Rightarrow>
          if c = CHR ''.'' \<and> takeWhile is_digit cs \<noteq> []
          then (Some (takeWhile is_digit cs), dropWhile is_digit cs)
          else (None, s)
      | [] \<Rightarrow> (None, s))"

definition scan_exp :: "string \<Rightarrow> int option \<times> string" where
  "scan_exp s =
     (case s of
        c # cs \<Rightarrow>
          if c = CHR ''e'' \<or> c = CHR ''E'' then
            (let neg = (case cs of d # _ \<Rightarrow> d = CHR ''-'' | [] \<Rightarrow> False);
                 signed = (case cs of d # _ \<Rightarrow> d = CHR ''-'' \<or> d = CHR ''+'' | [] \<Rightarrow> False);
                 ds = (if signed then tl cs else cs)
             in if takeWhile is_digit ds \<noteq> []
                then (Some ((if neg then - 1 else 1) * int (nat_of_digits (takeWhile is_digit ds))),
                      dropWhile is_digit ds)
                else (None, s))
          else (None, s)
      | [] \<Rightarrow> (None, s))"

definition pow10 :: "int \<Rightarrow> real" where
  "pow10 e = (if e < 0 then 1 / 10 ^ nat (- e) else 10 ^ nat e)"

definition scan_number :: "string \<Rightarrow> (json \<times> string) option" where
  "scan_number s =
     (let neg = (case s of c # _ \<Rightarrow> c = CHR ''-'' | [] \<Rightarrow> False);
          s1 = (if neg then tl s else s)
      in case scan_int_part s1 of
           None \<Rightarrow> None
         | Some (ds, s2) \<Rightarrow>
             (case scan_frac s2 of (fr, s3) \<Rightarrow>
              case scan_exp s3 of (ex, s4) \<Rightarrow>
                if fr = None \<and> ex = None
                then Some (JInt ((if neg then - 1 else 1) * int (nat_of_digits ds)), s4)
                else
                  (let fds = (case fr of None \<Rightarrow> [] | Some f \<Rightarrow> f);
                       e = (case ex of None \<Rightarrow> 0 | Some x \<Rightarrow> x);
                       mant = real (nat_of_digits ds)
                              + real (nat_of_digits fds) / 10 ^ length fds
                   in Some (JFloat ((if neg then - 1 else 1) * mant * pow10 e), s4))))"

text \<open>\<open>dict(pairs)\<close>: a repeated key keeps its place and takes the later value.\<close>

fun dict_set :: "(string \<times> json) list \<Rightarrow> string \<Rightarrow> json \<Rightarrow> (string \<times> json) list" where
  "dict_set [] k v = [(k, v)]"
| "dict_set ((k', v') # kvs) k v =
     (if k' = k then (k', v) # kvs else (k', v') # dict_set kvs k v)"

text \<open>
  \<open>scan_once\<close> reads one value at the head of the text; \<open>scan_elements\<close> reads the
  elements of an array after the bracket, \<open>scan_members\<close> the members of an object from
  after the opening quote of a key.
\<close>

fun scan_once :: "nat \<Rightarrow> string \<Rightarrow> (json \<times> string) option"
  and scan_elements :: "nat \<Rightarrow> string \<Rightarrow> json list \<Rightarrow> (json \<times> string) option"
  and scan_members :: "nat \<Rightarrow> string \<Rightarrow> (string \<times> json) list \<Rightarrow> (json \<times> string) option"
where
  "scan_once 0 s = None"
| "scan_once (Suc n) s =
     (case s of
        [] \<Rightarrow> None
      | c # cs \<Rightarrow>
          if c = CHR 0x22 then
            (case scan_string cs of None \<Rightarrow> None | Some (str, rest) \<Rightarrow> Some (JStr str, rest))
          else if c = CHR ''{'' then
            (case skip_ws cs of
               [] \<Rightarrow> None
             | d # ds \<Rightarrow>
                 if d = CHR ''}'' then Some (JObj [], ds)
                 else if d = CHR 0x22 then scan_members n ds []
                 else None)
          else if c = CHR ''['' then
            (case skip_ws cs of
               [] \<Rightarrow> None
             | d # ds \<Rightarrow>
                 if d = CHR '']'' then Some (JArr [], ds)
                 else scan_elements n (d # ds) [])
          else if prefix ''null'' s then Some (JNull, drop 4 s)
          else if prefix ''true'' s then Some (JBool True, drop 4 s)
          else if prefix ''false'' s then Some (JBool False, drop 5 s)
          else scan_number s)"
| "scan_elements 0 s acc = None"
| "scan_elements (Suc n) s acc =
     (case scan_once n s of
        None \<Rightarrow> None
      | Some (v, rest) \<Rightarrow>
          (case skip_ws rest of
             [] \<Rightarrow> None
           | d # ds \<Rightarrow>
               if d = CHR '']'' then Some (JArr (acc @ [v]), ds)
               else if d = CHR '','' then scan_elements n (skip_ws ds) (acc @ [v])
               else None))"
| "scan_members 0 s pairs = None"
| "scan_members (Suc n) s pairs =
     (case scan_string s of
        None \<Rightarrow> None
      | Some (key, rest) \<Rightarrow>
          (case skip_ws rest of
             [] \<Rightarrow> None
           | d # ds \<Rightarrow>
               if d \<noteq> CHR '':'' then None
               else
                 (case scan_once n (skip_ws ds) of
                    None \<Rightarrow> None
                  | Some (v, rest2) \<Rightarrow>
                      (case skip_ws rest2 of
                         [] \<Rightarrow> None
                       | d2 # ds2 \<Rightarrow>
                           if d2 = CHR ''}'' then Some (JObj (dict_set pairs key v), ds2)
                           else if d2 = CHR '','' then
                             (case skip_ws ds2 of
                                [] \<Rightarrow> None
                              | d3 # ds3 \<Rightarrow>
                                  if d3 = CHR 0x22
                                  then scan_members n ds3 (dict_set pairs key v)
                                  else None)
                           else None))))"

definition json_loads :: "string \<Rightarrow> json option" where
  "json_loads s =
     (case scan_once (2 * length s + 2) (skip_ws s) of
        None \<Rightarrow> None
      | Some (v, rest) \<Rightarrow> if skip_ws rest = [] then Some v else None)"

subsection \<open>Vocabulary for the ingestion properties\<close>

text \<open>The greedy span decodes when the whole text does not.\<close>

definition decodes_to :: "(string \<Rightarrow> json option) \<Rightarrow> string \<Rightarrow> json \<Rightarrow> bool" where
  "decodes_to loads text d =
     (loads text = Some d \<or>
      (loads text = None \<and>
       (case json_match text of Some m \<Rightarrow> loads m = Some d | None \<Rightarrow> False)))"

text \<open>Neither the text nor its greedy span decodes.\<close>

definition undecodable :: "(string \<Rightarrow> json option) \<Rightarrow> string \<Rightarrow> bool" where
  "undecodable loads text =
     (loads text = None \<and>
      (case json_match text of Some m \<Rightarrow> loads m = None | None \<Rightarrow> True))"

fun is_obj :: "json \<Rightarrow> bool" where
  "is_obj (JObj kvs) = True"
| "is_obj v = False"

text \<open>The array under a key of the response object; empty when the key is absent.\<close>

definition array_of :: "(string \<times> json) list \<Rightarrow> string \<Rightarrow> json list" where
  "array_of kvs key = (case map_of kvs key of Some (JArr xs) \<Rightarrow> xs | _ \<Rightarrow> [])"

definition records_ok :: "(string \<times> json) list \<Rightarrow> string \<Rightarrow> bool" where
  "records_ok kvs key =
     (case map_of kvs key of
        None \<Rightarrow> True
      | Some (JArr xs) \<Rightarrow> list_all is_obj xs
      | Some v \<Rightarrow> False)"

definition passthrough_ok :: "(string \<times> json) list \<Rightarrow> string \<Rightarrow> bool" where
  "passthrough_ok kvs key =
     (case map_of kvs key of None \<Rightarrow> True | Some (JArr xs) \<Rightarrow> True | Some v \<Rightarrow> False)"

definition category_ok :: "json \<Rightarrow> bool" where
  "category_ok pp =
     (case py_get pp ''category'' (JStr ''Sonstiges'') of Inr c \<Rightarrow> hashable c | Inl e \<Rightarrow> False)"

text \<open>
  The shape the prompt asks for, as far as ingestion depends on it: an object in which each
  record key, when present, holds an array of objects, each pass-through key an array, and
  each pain point's category a hashable value (the prompt asks for a string).
\<close>

definition matches_schema :: "json \<Rightarrow> bool" where
  "matches_schema d =
     (case d of
        JObj kvs \<Rightarrow>
          records_ok kvs ''customer_profiles'' \<and> records_ok kvs ''pain_points'' \<and>
          records_ok kvs ''questions'' \<and> records_ok kvs ''objections'' \<and>
          records_ok kvs ''language_patterns'' \<and>
          passthrough_ok kvs ''value_propositions'' \<and>
          passthrough_ok kvs ''marketing_recommendations'' \<and>
          passthrough_ok kvs ''messaging_guidelines'' \<and>
          passthrough_ok kvs ''conversion_triggers'' \<and>
          list_all category_ok (array_of kvs ''pain_points'')
      | _ \<Rightarrow> False)"

text \<open>\<open>len\<close> of a pass-through value that is a list.\<close>

definition json_len :: "json \<Rightarrow> nat" where
  "json_len v = (case v of JArr xs \<Rightarrow> length xs | _ \<Rightarrow> 0)"

text \<open>\<open>d.get(k)\<close> on the counting dict, by hash key.\<close>

definition dict_lookup :: "(json \<times> int) list \<Rightarrow> pykey \<Rightarrow> int option" where
  "dict_lookup d k = map_of (map (\<lambda>(c, n). (hash_key c, n)) d) (Inr k)"

text \<open>The number of pain points whose category has the hash key \<open>k\<close>.\<close>

definition category_count :: "PainPoint list \<Rightarrow> pykey \<Rightarrow> nat" where
  "category_count pps k = length (filter (\<lambda>pp. hash_key (pp_category pp) = Inr k) pps)"


subsection \<open>Example responses\<close>

definition ex_pain_point :: "string \<Rightarrow> json" where
  "ex_pain_point c = JObj [(''category'', JStr c), (''description'', JStr ''slow'')]"

definition ex_question :: "nat \<Rightarrow> json" where
  "ex_question i = JObj [(''text'', JStr (''q'' @ str_nat i))]"

text \<open>Three pain points in two categories and fifteen questions.\<close>

definition ex_analysis :: json where
  "ex_analysis = JObj
     [(''pain_points'', JArr [ex_pain_point ''Technical'', ex_pain_point ''Technical'',
                             ex_pain_point ''Cost'']),
      (''questions'', JArr (map ex_question [0..<15]))]"


text \<open>A response with prose around the object, and one whose prose holds a brace.\<close>

definition ex_noisy_text :: string where
  "ex_noisy_text = ''some preamble... {\"pain_points\": []} trailing notes''"

definition ex_object_text :: string where
  "ex_object_text = ''{\"pain_points\": [{\"category\": \"Cost\"}]}''"

definition ex_brace_text :: string where
  "ex_brace_text = ''as asked {see below}: '' @ ex_object_text"

definition ex_wrapped_text :: string where
  "ex_wrapped_text = ''Here it is: '' @ ex_object_text @ '' Done.''"

section \<open>Report export (exporter.py)\<close>

subsection \<open>ReportExporter._build_markdown\<close>

text \<open>
  The renderer appends to the list \<open>lines\<close> and joins it with newlines at the end. The
  literals of the source are kept character by character; an umlaut is its code point
  (\<open>CHR 0xE4\<close> for a-umlaut). The dash of the quote lines, U+2014, is beyond the 8-bit
  characters: it is the parameter \<open>dash\<close>. \<open>repr_other\<close> is as in \<open>py_str\<close>.
\<close>

definition pad2 :: "nat \<Rightarrow> string" where
  "pad2 n = (if n < 10 then CHR ''0'' # str_nat n else str_nat n)"

text \<open>\<open>strftime('%d.%m.%Y %H:%M')\<close>.\<close>

definition strftime_report :: "datetime \<Rightarrow> string" where
  "strftime_report t =
     pad2 (day t) @ ''.'' @ pad2 (month t) @ ''.'' @ str_nat (year t) @ '' ''
       @ pad2 (hour t) @ '':'' @ pad2 (minute t)"

text \<open>\<open>if v: lines.append(label + str(v))\<close>.\<close>

definition opt_line :: "(json \<Rightarrow> string) \<Rightarrow> string \<Rightarrow> json \<Rightarrow> string list" where
  "opt_line repr_other label v = (if py_truthy v then [label @ py_str repr_other v] else [])"

definition header_lines :: "AnalysisResult \<Rightarrow> string list" where
  "header_lines result =
     [''# Meeting-Analyse Report'',
      [],
      ''**Erstellt:** '' @ strftime_report (timestamp result),
      ''**Analysierte Meetings:** '' @ str_nat (meetings_analyzed result),
      ''**Lead-Aussagen:** '' @ str_nat (total_lead_statements result),
      [],
      ''---'',
      []]"

text \<open>A loop whose body appends some lines and may raise.\<close>

definition lines_of :: "('a \<Rightarrow> error + string list) \<Rightarrow> 'a list \<Rightarrow> error + string list" where
  "lines_of body xs = rbind (map_res body xs) (\<lambda>ls. Inr (concat ls))"

subsubsection \<open>Section 1: customer profiles\<close>

definition quote_lines :: "(json \<Rightarrow> string) \<Rightarrow> json \<Rightarrow> error + string list" where
  "quote_lines repr_other quote =
     rbind (py_get quote ''quote'' (JStr [])) (\<lambda>q.
     rbind (py_get quote ''context'' JNull) (\<lambda>c.
     Inr ((''> \"'' @ py_str repr_other q @ ''\"'')
          # (if py_truthy c then [''> *'' @ py_str repr_other c @ ''*''] else []))))"

definition profile_lines :: "(json \<Rightarrow> string) \<Rightarrow> nat \<times> CustomerProfile \<Rightarrow> error + string list" where
  "profile_lines repr_other ip =
     (case ip of (i, profile) \<Rightarrow>
      rbind (if py_truthy (cp_supporting_quotes profile)
             then rbind (py_iter (cp_supporting_quotes profile)) (\<lambda>quotes.
                  rbind (lines_of (quote_lines repr_other) quotes) (\<lambda>ql.
                  Inr (['''', ''**Unterst'' @ [CHR 0xFC] @ ''tzende Zitate:**''] @ ql)))
             else Inr []) (\<lambda>quote_part.
      Inr ([''### Profil '' @ str_nat i]
           @ opt_line repr_other ''- **Unternehmen:** '' (cp_company_name profile)
           @ opt_line repr_other ''- **Branche:** '' (cp_industry profile)
           @ opt_line repr_other ''- **Entscheider-Rolle:** '' (cp_decision_maker_role profile)
           @ opt_line repr_other (''- **Gesch'' @ [CHR 0xE4] @ ''ftskontext:** '')
               (cp_business_context profile)
           @ opt_line repr_other ''- **Dringlichkeit:** '' (cp_timeline_urgency profile)
           @ quote_part
           @ [''''])))"

definition profiles_section :: "(json \<Rightarrow> string) \<Rightarrow> AnalysisResult \<Rightarrow> error + string list" where
  "profiles_section repr_other result =
     (if customer_profiles result \<noteq> [] then
        rbind (lines_of (profile_lines repr_other)
                 (zip [1..<Suc (length (customer_profiles result))] (customer_profiles result)))
          (\<lambda>body. Inr ([''## 1. Kunden-Insight-Profile'', []] @ body))
      else Inr [])"

subsubsection \<open>Grouping by category\<close>

text \<open>
  \<open>if cat not in by_category: by_category[cat] = []\<close>, then
  \<open>by_category[cat].append(x)\<close>; \<open>k\<close> is the hash key of \<open>cat\<close>.
\<close>

fun group_add :: "pykey \<Rightarrow> json \<Rightarrow> 'a \<Rightarrow> (json \<times> 'a list) list \<Rightarrow> (json \<times> 'a list) list" where
  "group_add k cat x [] = [(cat, [x])]"
| "group_add k cat x ((c, xs) # g) =
     (if hash_key c = Inr k then (c, xs @ [x]) # g else (c, xs) # group_add k cat x g)"

definition group_step ::
  "('a \<Rightarrow> json) \<Rightarrow> string \<Rightarrow> 'a \<Rightarrow> (json \<times> 'a list) list \<Rightarrow> error + (json \<times> 'a list) list" where
  "group_step category fallback x g =
     (let cat = py_or (category x) (JStr fallback) in
      rbind (hash_key cat) (\<lambda>k. Inr (group_add k cat x g)))"

definition group_by_category ::
  "('a \<Rightarrow> json) \<Rightarrow> string \<Rightarrow> 'a list \<Rightarrow> error + (json \<times> 'a list) list" where
  "group_by_category category fallback xs = for_each (group_step category fallback) xs []"

subsubsection \<open>Section 2: pain points\<close>

definition pain_point_lines :: "(json \<Rightarrow> string) \<Rightarrow> string \<Rightarrow> PainPoint \<Rightarrow> string list" where
  "pain_point_lines repr_other dash pp =
     [''**'' @ py_str repr_other (pp_description pp) @ ''** (Priorit'' @ [CHR 0xE4] @ ''t: ''
        @ py_str repr_other (pp_impact_level pp) @ '')'',
      [],
      ''> \"'' @ py_str repr_other (pp_direct_quote pp) @ ''\"'',
      ''> '' @ dash @ '' *'' @ py_str repr_other (pp_speaker pp) @ ''*'',
      []]
     @ opt_line repr_other ''**Kontext:** '' (pp_context pp)
     @ opt_line repr_other (''**Gew'' @ [CHR 0xFC] @ ''nschtes Ergebnis:** '') (pp_desired_outcome pp)
     @ opt_line repr_other ''**Auswirkung:** '' (pp_impact_statement pp)
     @ ['''']"

definition pain_group_lines ::
  "(json \<Rightarrow> string) \<Rightarrow> string \<Rightarrow> json \<times> PainPoint list \<Rightarrow> string list" where
  "pain_group_lines repr_other dash g =
     (case g of (category, points) \<Rightarrow>
        [''### '' @ py_str repr_other category, []]
        @ concat (map (pain_point_lines repr_other dash) points))"

definition pain_section ::
  "(json \<Rightarrow> string) \<Rightarrow> string \<Rightarrow> AnalysisResult \<Rightarrow> error + string list" where
  "pain_section repr_other dash result =
     (if pain_points result \<noteq> [] then
        rbind (group_by_category pp_category ''Sonstiges'' (pain_points result)) (\<lambda>by_category.
        Inr ([''## 2. Pain Point Matrix'', []]
             @ concat (map (pain_group_lines repr_other dash) by_category)))
      else Inr [])"

subsubsection \<open>Section 3: questions\<close>

definition question_lines :: "(json \<Rightarrow> string) \<Rightarrow> Question \<Rightarrow> string list" where
  "question_lines repr_other q =
     [''**Frage:** \"'' @ py_str repr_other (q_text q) @ ''\"'',
      ''- *'' @ py_str repr_other (q_speaker q) @ ''*'']
     @ opt_line repr_other ''- **Zugrundeliegende Sorge:** '' (q_underlying_concern q)
     @ ['''']"

definition question_group_lines :: "(json \<Rightarrow> string) \<Rightarrow> json \<times> Question list \<Rightarrow> string list" where
  "question_group_lines repr_other g =
     (case g of (category, qs) \<Rightarrow>
        [''### '' @ py_str repr_other category, []]
        @ concat (map (question_lines repr_other) qs))"

definition questions_section :: "(json \<Rightarrow> string) \<Rightarrow> AnalysisResult \<Rightarrow> error + string list" where
  "questions_section repr_other result =
     (if questions result \<noteq> [] then
        rbind (group_by_category q_category ''Allgemein'' (questions result)) (\<lambda>by_category.
        Inr ([''## 3. Lead-Fragen'', []]
             @ concat (map (question_group_lines repr_other) by_category)))
      else Inr [])"

subsubsection \<open>Section 4: objections\<close>

definition objection_lines :: "(json \<Rightarrow> string) \<Rightarrow> string \<Rightarrow> Objection \<Rightarrow> string list" where
  "objection_lines repr_other dash obj =
     [''### \"'' @ py_str repr_other (obj_objection_text obj) @ ''\"'',
      [],
      ''> \"'' @ py_str repr_other (obj_direct_quote obj) @ ''\"'',
      ''> '' @ dash @ '' *'' @ py_str repr_other (obj_speaker obj) @ ''*'',
      []]
     @ opt_line repr_other (''**Emotionale F'' @ [CHR 0xE4] @ ''rbung:** '')
         (obj_emotional_undertone obj)
     @ opt_line repr_other ''**Ursache:** '' (obj_root_cause obj)
     @ opt_line repr_other (''**L'' @ [CHR 0xF6] @ ''sungsweg:** '') (obj_resolution_pathway obj)
     @ opt_line repr_other ''**Conversion Trigger:** '' (obj_conversion_trigger obj)
     @ ['''']"

definition objections_section :: "(json \<Rightarrow> string) \<Rightarrow> string \<Rightarrow> AnalysisResult \<Rightarrow> string list" where
  "objections_section repr_other dash result =
     (if objections result \<noteq> [] then
        [''## 4. Einwand-Analyse'', []]
        @ concat (map (objection_lines repr_other dash) (objections result))
      else [])"

subsubsection \<open>Section 5: language patterns\<close>

definition categories :: "(string \<times> string) list" where
  "categories =
     [(''industry_term'', ''Fachterminologie''),
      (''emotional'', ''Emotionale Sprache''),
      (''power_word'', ''Power Words''),
      (''metaphor'', ''Metaphern & Analogien'')]"

definition pattern_lines :: "(json \<Rightarrow> string) \<Rightarrow> string \<Rightarrow> LanguagePattern \<Rightarrow> string list" where
  "pattern_lines repr_other dash lp =
     (''- **\"'' @ py_str repr_other (lp_phrase lp) @ ''\"** '' @ dash @ '' ''
        @ py_str repr_other (lp_speaker lp))
     # opt_line repr_other ''  - Kontext: '' (lp_context lp)"

definition pattern_group_lines ::
  "(json \<Rightarrow> string) \<Rightarrow> string \<Rightarrow> LanguagePattern list \<Rightarrow> string \<times> string \<Rightarrow> string list" where
  "pattern_group_lines repr_other dash lps c =
     (case c of (cat_key, cat_name) \<Rightarrow>
        (let patterns = filter (\<lambda>lp. lp_category lp = JStr cat_key) lps in
         if patterns \<noteq> [] then
           [''### '' @ cat_name, []]
           @ concat (map (pattern_lines repr_other dash) patterns)
           @ ['''']
         else []))"

definition language_section :: "(json \<Rightarrow> string) \<Rightarrow> string \<Rightarrow> AnalysisResult \<Rightarrow> string list" where
  "language_section repr_other dash result =
     (if language_patterns result \<noteq> [] then
        [''## 5. Sprachanalyse'', []]
        @ concat (map (pattern_group_lines repr_other dash (language_patterns result)) categories)
      else [])"

subsubsection \<open>Sections 6 to 9: the pass-through lists\<close>

text \<open>\<open>if v: lines.append(header); lines.append(""); for x in v: ...\<close>.\<close>

definition passthrough_section ::
  "string \<Rightarrow> (json \<Rightarrow> error + string list) \<Rightarrow> json \<Rightarrow> error + string list" where
  "passthrough_section header body v =
     (if py_truthy v then
        rbind (py_iter v) (\<lambda>items.
        rbind (lines_of body items) (\<lambda>ls.
        Inr ([header, []] @ ls)))
      else Inr [])"

definition value_proposition_lines :: "(json \<Rightarrow> string) \<Rightarrow> json \<Rightarrow> error + string list" where
  "value_proposition_lines repr_other vp =
     rbind (py_get vp ''customer_need'' (JStr [])) (\<lambda>a.
     rbind (py_get vp ''solution_alignment'' (JStr [])) (\<lambda>b.
     rbind (py_get vp ''benefit_statement'' (JStr [])) (\<lambda>c.
     Inr [''**Kundenbed'' @ [CHR 0xFC] @ ''rfnis:** '' @ py_str repr_other a,
          ''**L'' @ [CHR 0xF6] @ ''sung:** '' @ py_str repr_other b,
          ''**Nutzenaussage:** '' @ py_str repr_other c,
          []])))"

definition recommendation_lines :: "(json \<Rightarrow> string) \<Rightarrow> json \<Rightarrow> error + string list" where
  "recommendation_lines repr_other rec =
     rbind (py_get rec ''section'' (JStr ''Allgemein'')) (\<lambda>a.
     rbind (py_get rec ''customer_quote'' JNull) (\<lambda>b.
     rbind (py_get rec ''recommended_message'' (JStr [])) (\<lambda>c.
     Inr ([''### '' @ py_str repr_other a]
          @ (if py_truthy b then [''> \"'' @ py_str repr_other b @ ''\"''] else [])
          @ [''**Empfehlung:** '' @ py_str repr_other c, []]))))"

definition guideline_lines :: "(json \<Rightarrow> string) \<Rightarrow> json \<Rightarrow> error + string list" where
  "guideline_lines repr_other msg =
     rbind (py_get msg ''effective_term'' (JStr [])) (\<lambda>a.
     rbind (py_get msg ''customer_quote'' JNull) (\<lambda>b.
     rbind (py_get msg ''usage_recommendation'' (JStr [])) (\<lambda>c.
     Inr ([''**Begriff:** \"'' @ py_str repr_other a @ ''\"'']
          @ (if py_truthy b then [''> \"'' @ py_str repr_other b @ ''\"''] else [])
          @ [''**Empfehlung:** '' @ py_str repr_other c, []]))))"

definition trigger_lines :: "(json \<Rightarrow> string) \<Rightarrow> json \<Rightarrow> error + string list" where
  "trigger_lines repr_other trigger = Inr [''- '' @ py_str repr_other trigger]"

text \<open>The last section closes with one empty line after the loop.\<close>

definition triggers_section :: "(json \<Rightarrow> string) \<Rightarrow> json \<Rightarrow> error + string list" where
  "triggers_section repr_other v =
     rbind (passthrough_section ''## 9. Conversion Triggers'' (trigger_lines repr_other) v) (\<lambda>ls.
     Inr (if py_truthy v then ls @ [''''] else ls))"

subsubsection \<open>The document\<close>

definition markdown_lines ::
  "(json \<Rightarrow> string) \<Rightarrow> string \<Rightarrow> AnalysisResult \<Rightarrow> error + string list" where
  "markdown_lines repr_other dash result =
     rbind (profiles_section repr_other result) (\<lambda>s1.
     rbind (pain_section repr_other dash result) (\<lambda>s2.
     rbind (questions_section repr_other result) (\<lambda>s3.
     rbind (passthrough_section ''## 6. Value Propositions'' (value_proposition_lines repr_other)
              (value_propositions result)) (\<lambda>s6.
     rbind (passthrough_section ''## 7. Marketing-Empfehlungen'' (recommendation_lines repr_other)
              (marketing_recommendations result)) (\<lambda>s7.
     rbind (passthrough_section ''## 8. Messaging-Leitfaden'' (guideline_lines repr_other)
              (messaging_guidelines result)) (\<lambda>s8.
     rbind (triggers_section repr_other (conversion_triggers result)) (\<lambda>s9.
     Inr (header_lines result @ s1 @ s2 @ s3
          @ objections_section repr_other dash result
          @ language_section repr_other dash result
          @ s6 @ s7 @ s8 @ s9))))))))"

definition build_markdown ::
  "(json \<Rightarrow> string) \<Rightarrow> string \<Rightarrow> AnalysisResult \<Rightarrow> error + string" where
  "build_markdown repr_other dash result =
     rbind (markdown_lines repr_other dash result) (\<lambda>lines. Inr (join_lines lines))"

subsection \<open>Vocabulary for the export properties\<close>

text \<open>A line that opens a numbered section: it begins with two hashes and a blank.\<close>

definition is_heading :: "string \<Rightarrow> bool" where
  "is_heading l = prefix ''## '' l"

text \<open>The nine section headings, in the order of the document.\<close>

definition section_headings :: "AnalysisResult \<Rightarrow> string list" where
  "section_headings result =
     (if customer_profiles result \<noteq> [] then [''## 1. Kunden-Insight-Profile''] else [])
     @ (if pain_points result \<noteq> [] then [''## 2. Pain Point Matrix''] else [])
     @ (if questions result \<noteq> [] then [''## 3. Lead-Fragen''] else [])
     @ (if objections result \<noteq> [] then [''## 4. Einwand-Analyse''] else [])
     @ (if language_patterns result \<noteq> [] then [''## 5. Sprachanalyse''] else [])
     @ (if py_truthy (value_propositions result) then [''## 6. Value Propositions''] else [])
     @ (if py_truthy (marketing_recommendations result) then [''## 7. Marketing-Empfehlungen'']
        else [])
     @ (if py_truthy (messaging_guidelines result) then [''## 8. Messaging-Leitfaden''] else [])
     @ (if py_truthy (conversion_triggers result) then [''## 9. Conversion Triggers''] else [])"

text \<open>\<open>doc.split("\n")\<close>: the lines of a document.\<close>

fun split_lines :: "string \<Rightarrow> string list" where
  "split_lines [] = ['''']"
| "split_lines (c # cs) =
     (if c = CHR 0x0A then [] # split_lines cs
      else (case split_lines cs of l # ls \<Rightarrow> (c # l) # ls | [] \<Rightarrow> [c] # []))"

subsection \<open>Example results\<close>

definition ex_objection :: Objection where
  "ex_objection = \<lparr>obj_objection_text = JStr ''Too expensive'',
     obj_direct_quote = JStr ''That is a lot of money'', obj_speaker = JStr ''Bob'',
     obj_emotional_undertone = JStr [], obj_root_cause = JStr ''budget'',
     obj_resolution_pathway = JStr [], obj_conversion_trigger = JStr []\<rparr>"

text \<open>One objection, nothing else.\<close>

definition ex_result :: AnalysisResult where
  "ex_result = (new_result ex_date 1 2)\<lparr>objections := [ex_objection]\<rparr>"

text \<open>No objection; one conversion trigger whose text has a line break in it.\<close>

definition ex_trigger_result :: AnalysisResult where
  "ex_trigger_result = (new_result ex_date 1 2)
     \<lparr>conversion_triggers := JArr [JStr (''ok'' @ [CHR 0x0A] @ ''## 4. Einwand-Analyse'')]\<rparr>"

subsection \<open>Results of the declared types\<close>

text \<open>A list of dicts, as \<open>List[Dict[str, str]]\<close> declares.\<close>

definition dict_list :: "json \<Rightarrow> bool" where
  "dict_list v = (case v of JArr xs \<Rightarrow> list_all is_obj xs | _ \<Rightarrow> False)"

fun is_list :: "json \<Rightarrow> bool" where
  "is_list (JArr xs) = True"
| "is_list v = False"

text \<open>
  What rendering needs of a result: hashable categories, lists of dicts where the renderer
  calls \<open>.get\<close> on the elements, a list of conversion triggers.
\<close>

definition renderable :: "AnalysisResult \<Rightarrow> bool" where
  "renderable result =
     (list_all (\<lambda>cp. dict_list (cp_supporting_quotes cp)) (customer_profiles result) \<and>
      list_all (\<lambda>pp. hashable (pp_category pp)) (pain_points result) \<and>
      list_all (\<lambda>q. hashable (q_category q)) (questions result) \<and>
      dict_list (value_propositions result) \<and>
      dict_list (marketing_recommendations result) \<and>
      dict_list (messaging_guidelines result) \<and>
      is_list (conversion_triggers result))"

section \<open>Properties of host/lead attribution\<close>

lemma rbind_Inr_iff: "rbind m f = Inr y \<longleftrightarrow> (\<exists>x. m = Inr x \<and> f x = Inr y)"
  by (cases m) (auto simp: rbind_def)



lemma map_res_Inr:
  "map_res f xs = Inr ys \<Longrightarrow> length ys = length xs \<and> (\<forall>y\<in>set ys. \<exists>x\<in>set xs. f x = Inr y)"
  by (induction xs arbitrary: ys) (auto split: sum.splits)

lemma lower_or_empty_Inr: "lower_or_empty x = Inr s \<Longrightarrow> s = lower_text x"
  by (cases x) (auto simp: lower_or_empty_def lower_text_def py_lower_def split: if_splits)

lemma any_marker_iff:
  "any_marker hm (lower_text (sp_name sp)) (lower_text (sp_email sp)) = marker_match hm sp"
  by (auto simp: any_marker_def marker_match_def list_ex_iff)

lemma speaker_step_Inr:
  assumes "speaker_step hm sp ids = Inr ids'"
  shows "set ids' = set ids \<union>
     {k. hash_key (sp_id sp) = Inr k \<and> (sp_is_host sp \<or> marker_match hm sp)}"
  using assms
  by (auto simp: speaker_step_def rbind_Inr_iff any_marker_iff[symmetric]
           dest!: lower_or_empty_Inr split: if_splits)

lemma for_each_speaker_step:
  "for_each (speaker_step hm) sps ids = Inr ids' \<Longrightarrow>
   set ids' = set ids \<union>
     {k. \<exists>sp\<in>set sps. hash_key (sp_id sp) = Inr k \<and> (sp_is_host sp \<or> marker_match hm sp)}"
proof (induction sps arbitrary: ids)
  case Nil
  then show ?case by simp
next
  case (Cons sp sps)
  then obtain ids1 where s1: "speaker_step hm sp ids = Inr ids1"
    and r: "for_each (speaker_step hm) sps ids1 = Inr ids'"
    by (auto split: sum.splits)
  from speaker_step_Inr[OF s1] Cons.IH[OF r] show ?case by auto
qed

lemma hashable_Inr: "hashable v \<Longrightarrow> \<exists>k. hash_key v = Inr k"
  by (cases v) auto









text \<open>
  Claim C2, evaluated where the code departs from it. The speaker is named \<open>Alice\<close>, carries
  no host flag, and the caller's only marker is \<open>ALICE\<close>: marker and name agree up to letter
  case, so the marker is a case-insensitive substring of the name. The caller's marker is
  compared as given against the lower-cased name, the speaker is not classified as host,
  and the sentence is returned as a lead statement. The marker \<open>Alice\<close>, equal to the name,
  fares the same; only the lower-case marker \<open>alice\<close> excludes the speaker.
\<close>

theorem C2_caller_marker_case_sensitive:
  "py_lower ''ALICE'' = py_lower ''Alice'' \<and>
   str_in (py_lower ''ALICE'') (py_lower ''Alice'') \<and>
   host_speaker_ids alice_meeting (Some [''ALICE'']) = Inr [] \<and>
   get_lead_statements alice_meeting (Some [''ALICE'']) = Inr [mk_sentence 0 ''Hi'' ''1'' ''Alice''] \<and>
   get_lead_statements alice_meeting (Some [''Alice'']) = Inr [mk_sentence 0 ''Hi'' ''1'' ''Alice''] \<and>
   get_lead_statements alice_meeting (Some [''alice'']) = Inr []"
  by code_simp

lemma parse_speaker_Inr: "parse_speaker x = Inr sp \<Longrightarrow> \<not> sp_is_host sp"
  by (auto simp: parse_speaker_def rbind_Inr_iff)

lemma parse_transcript_speakers:
  assumes "parse_transcript fts fiso now data = Inr M"
  shows "\<exists>items. map_res parse_speaker items = Inr (m_speakers M)"
  using assms by (auto simp: parse_transcript_def rbind_Inr_iff)

text \<open>
  Claim C10. Every meeting that \<open>_parse_transcript\<close> constructs has the host flag unset on
  every speaker; hence, for such a meeting, the host-speaker-id set that
  \<open>get_lead_statements\<close> computes holds exactly the ids of the speakers that a marker
  matches: the flag never decides.
\<close>

theorem C10_parsed_speakers_unflagged:
  assumes "parse_transcript fts fiso now data = Inr M"
  shows "(\<forall>sp\<in>set (m_speakers M). \<not> sp_is_host sp) \<and>
         (\<forall>H hm ids. host_markers M H = Inr hm \<longrightarrow> host_speaker_ids M H = Inr ids \<longrightarrow>
            set ids = {k. \<exists>sp\<in>set (m_speakers M). hash_key (sp_id sp) = Inr k \<and>
                           marker_match hm sp})"
proof -
  from parse_transcript_speakers[OF assms] obtain items
    where "map_res parse_speaker items = Inr (m_speakers M)" ..
  from map_res_Inr[OF this] have nf: "\<forall>sp\<in>set (m_speakers M). \<not> sp_is_host sp"
    by (auto dest: parse_speaker_Inr)
  have "set ids = {k. \<exists>sp\<in>set (m_speakers M). hash_key (sp_id sp) = Inr k \<and> marker_match hm sp}"
    if hm: "host_markers M H = Inr hm" and ids: "host_speaker_ids M H = Inr ids" for H hm ids
  proof -
    from hm ids have "for_each (speaker_step hm) (m_speakers M) [] = Inr ids"
      by (simp add: host_speaker_ids_def rbind_def)
    from for_each_speaker_step[OF this] nf show ?thesis by auto
  qed
  with nf show ?thesis by blast
qed

theorem C10_parsed_speakers_witness:
  "(\<exists>M. parse_transcript (\<lambda>r. Inr ex_date) (\<lambda>s. Inl ValueError) ex_date ex_transcript = Inr M \<and>
        map sp_is_host (m_speakers M) = [False, False] \<and>
        host_speaker_ids M (Some [''bob'']) = Inr [KNum 1] \<and>
        (\<forall>sp\<in>set (m_speakers M). \<not> sp_is_host sp))"
proof -
  obtain M where M: "parse_transcript (\<lambda>r. Inr ex_date) (\<lambda>s. Inl ValueError) ex_date ex_transcript = Inr M"
    and f: "map sp_is_host (m_speakers M) = [False, False]"
    and i: "host_speaker_ids M (Some [''bob'']) = Inr [KNum 1]"
  proof -
    have "case parse_transcript (\<lambda>r. Inr ex_date) (\<lambda>s. Inl ValueError) ex_date ex_transcript of
            Inl e \<Rightarrow> False
          | Inr M \<Rightarrow> map sp_is_host (m_speakers M) = [False, False] \<and>
                     host_speaker_ids M (Some [''bob'']) = Inr [KNum 1]"
      by code_simp
    then show ?thesis using that by (auto split: sum.splits)
  qed
  from C10_parsed_speakers_unflagged[OF M]
  have nf: "\<forall>sp\<in>set (m_speakers M). \<not> sp_is_host sp"
    by (rule conjunct1)
  show ?thesis
    by (rule exI[of _ M]) (use M f i nf in simp)
qed

section \<open>Properties of the prompt truncation\<close>

lemma join_lines_length:
  "length (join_lines ls) = sum_list (map length ls) + (length ls - 1)"
  by (induction ls rule: join_lines.induct) auto

text \<open>
  What the loop keeps: a prefix of the statement lines in their order, whose line lengths
  add up to at most the budget. The separators are not counted.
\<close>

lemma format_loop_shape:
  "\<exists>k. format_loop r mx stmts acc t = acc @ take k (map (statement_line r) stmts) \<and>
       t + int (sum_list (map length (take k (map (statement_line r) stmts)))) \<le> max mx t"
proof (induction stmts arbitrary: acc t)
  case Nil
  then show ?case by simp
next
  case (Cons s stmts)
  show ?case
  proof (cases "t + int (length (statement_line r s)) > mx")
    case True
    then have "format_loop r mx (s # stmts) acc t
                 = acc @ take 0 (map (statement_line r) (s # stmts))"
      by (simp add: Let_def)
    then show ?thesis by (intro exI[of _ 0]) simp
  next
    case False
    from Cons.IH[of "acc @ [statement_line r s]" "t + int (length (statement_line r s))"]
    obtain k where k:
      "format_loop r mx stmts (acc @ [statement_line r s]) (t + int (length (statement_line r s)))
         = (acc @ [statement_line r s]) @ take k (map (statement_line r) stmts)"
      "t + int (length (statement_line r s))
         + int (sum_list (map length (take k (map (statement_line r) stmts))))
         \<le> max mx (t + int (length (statement_line r s)))"
      by blast
    show ?thesis
      using False k by (intro exI[of _ "Suc k"]) (simp add: Let_def)
  qed
qed

lemma format_statements_prefix:
  "\<exists>k. format_statements r stmts mx = join_lines (take k (map (statement_line r) stmts)) \<and>
       int (sum_list (map length (take k (map (statement_line r) stmts)))) \<le> max mx 0"
  using format_loop_shape[of r mx stmts "[]" 0] by (auto simp: format_statements_def)

lemma long_line: "length (statement_line r long_statement) = 25000"
  by (simp add: statement_line_def long_statement_def)

text \<open>
  Claim C9, evaluated where the code departs from it. Two statements whose lines have
  25000 characters each: the loop counts 50000 characters, keeps both lines, and the
  joined text has 50001 characters, one more than the budget of 50000, because the
  newline between the lines is not counted.
\<close>

theorem C9_newline_exceeds_budget:
  "format_loop r default_max_chars [long_statement, long_statement] [] 0
     = [statement_line r long_statement, statement_line r long_statement] \<and>
   length (format_statements r [long_statement, long_statement] default_max_chars) = 50001 \<and>
   default_max_chars = 50000"
  by (simp add: format_statements_def default_max_chars_def Let_def long_line)

section \<open>Properties of response ingestion\<close>

lemma map_res_total:
  "(\<forall>x\<in>set xs. \<exists>y. f x = Inr y) \<Longrightarrow> \<exists>ys. map_res f xs = Inr ys \<and> length ys = length xs"
  by (induction xs) (auto split: sum.splits)

lemma build_records_absent:
  "map_of kvs key = None \<Longrightarrow> build_records (JObj kvs) key build = Inr []"
  by (simp add: build_records_def rbind_def)

lemma build_records_array:
  "map_of kvs key = Some (JArr xs) \<Longrightarrow> build_records (JObj kvs) key build = map_res build xs"
  by (simp add: build_records_def rbind_def)

lemma build_records_not_iterable:
  "map_of kvs key = Some v \<Longrightarrow> py_iter v = Inl e \<Longrightarrow> build_records (JObj kvs) key build = Inl e"
  by (simp add: build_records_def rbind_def)

lemma build_records_ok:
  assumes "records_ok kvs key" and "\<And>f. \<exists>y. build (JObj f) = Inr y"
  shows "\<exists>ys. build_records (JObj kvs) key build = Inr ys \<and> length ys = length (array_of kvs key)"
proof (cases "map_of kvs key")
  case None
  then show ?thesis by (simp add: build_records_absent array_of_def)
next
  case (Some v)
  with assms(1) obtain xs where v: "v = JArr xs" and o: "list_all is_obj xs"
    by (cases v) (auto simp: records_ok_def)
  have "\<forall>x\<in>set xs. \<exists>y. build x = Inr y"
  proof
    fix x assume "x \<in> set xs"
    with o have "is_obj x" by (simp add: list_all_iff)
    then obtain f where "x = JObj f" by (cases x) auto
    with assms(2) show "\<exists>y. build x = Inr y" by simp
  qed
  from map_res_total[OF this] Some v show ?thesis
    by (simp add: build_records_array array_of_def)
qed

lemma build_customer_profile_obj: "\<exists>y. build_customer_profile (JObj f) = Inr y"
  by (simp add: build_customer_profile_def rbind_def)
lemma build_pain_point_obj: "\<exists>y. build_pain_point (JObj f) = Inr y"
  by (simp add: build_pain_point_def rbind_def)
lemma build_question_obj: "\<exists>y. build_question (JObj f) = Inr y"
  by (simp add: build_question_def rbind_def)
lemma build_objection_obj: "\<exists>y. build_objection (JObj f) = Inr y"
  by (simp add: build_objection_def rbind_def)
lemma build_language_pattern_obj: "\<exists>y. build_language_pattern (JObj f) = Inr y"
  by (simp add: build_language_pattern_def rbind_def)

lemma json_match_intro:
  assumes "CHR ''{'' \<notin> set pre" "CHR ''}'' \<notin> set post"
  shows "json_match (pre @ [CHR ''{''] @ body @ [CHR ''}''] @ post) = Some ([CHR ''{''] @ body @ [CHR ''}''])"
proof -
  have 1: "dropWhile (\<lambda>c. c \<noteq> CHR ''{'') (pre @ [CHR ''{''] @ body @ [CHR ''}''] @ post)
        = [CHR ''{''] @ body @ [CHR ''}''] @ post"
    using assms(1) by (subst dropWhile_append2) auto
  have 2: "rev ([CHR ''{''] @ body @ [CHR ''}''] @ post) = rev post @ (CHR ''}'' # rev body @ [CHR ''{''])"
    by simp
  have 3: "dropWhile (\<lambda>c. c \<noteq> CHR ''}'') (rev post @ (CHR ''}'' # rev body @ [CHR ''{'']))
        = CHR ''}'' # rev body @ [CHR ''{'']"
    using assms(2) by (subst dropWhile_append2) auto
  show ?thesis
    unfolding json_match_def Let_def 1 2 3 by simp
qed

lemma json_match_elim:
  assumes "json_match text = Some m"
  shows "\<exists>pre body post. text = pre @ [CHR ''{''] @ body @ [CHR ''}''] @ post \<and>
           CHR ''{'' \<notin> set pre \<and> CHR ''}'' \<notin> set post \<and> m = [CHR ''{''] @ body @ [CHR ''}'']"
proof -
  define pre where "pre = takeWhile (\<lambda>c. c \<noteq> CHR ''{'') text"
  define fo where "fo = dropWhile (\<lambda>c. c \<noteq> CHR ''{'') text"
  define rpost where "rpost = takeWhile (\<lambda>c. c \<noteq> CHR ''}'') (rev fo)"
  define rspan where "rspan = dropWhile (\<lambda>c. c \<noteq> CHR ''}'') (rev fo)"
  have t: "text = pre @ fo" by (simp add: pre_def fo_def)
  have p: "CHR ''{'' \<notin> set pre" unfolding pre_def by (auto dest: set_takeWhileD)
  have q: "CHR ''}'' \<notin> set rpost" unfolding rpost_def by (auto dest: set_takeWhileD)
  from assms have m: "m = rev rspan" and ne: "rspan \<noteq> []"
    by (auto simp: json_match_def Let_def fo_def rspan_def split: if_splits)
  have rf: "rev fo = rpost @ rspan" by (simp add: rpost_def rspan_def)
  then have "rev (rev fo) = rev (rpost @ rspan)" by simp
  then have fo: "fo = rev rspan @ rev rpost" by simp
  have hd1: "hd rspan = CHR ''}''"
    using hd_dropWhile[of "\<lambda>c. c \<noteq> CHR ''}''" "rev fo"] ne by (simp add: rspan_def)
  from ne fo have fne: "fo \<noteq> []" by auto
  have hd2: "hd fo = CHR ''{''"
    using hd_dropWhile[of "\<lambda>c. c \<noteq> CHR ''{''" "text"] fne by (simp add: fo_def)
  from ne hd1 obtain r where r: "rspan = CHR ''}'' # r" by (cases rspan) auto
  have "r \<noteq> []"
  proof
    assume "r = []"
    with r fo have "fo = CHR ''}'' # rev rpost" by simp
    with hd2 show False by simp
  qed
  with fo r hd2 obtain body where b: "rev r = CHR ''{'' # body"
    by (cases "rev r") auto
  have "text = pre @ [CHR ''{''] @ body @ [CHR ''}''] @ rev rpost"
    using t fo r b by simp
  moreover have "m = [CHR ''{''] @ body @ [CHR ''}'']" using m r b by simp
  moreover have "CHR ''}'' \<notin> set (rev rpost)" using q by simp
  ultimately show ?thesis using p by blast
qed

lemma parse_response_undecodable:
  "undecodable loads text \<Longrightarrow> parse_response loads text = JObj []"
  by (auto simp: undecodable_def parse_response_def split: option.splits)

lemma parse_response_decodes:
  "decodes_to loads text d \<Longrightarrow> parse_response loads text = d"
  by (auto simp: decodes_to_def parse_response_def split: option.splits)

lemma rbind_Inr [simp]: "rbind (Inr x) f = f x"
  by (simp add: rbind_def)

lemma rbind_Inl [simp]: "rbind (Inl e) f = Inl e"
  by (simp add: rbind_def)

lemma build_records_empty: "build_records (JObj []) key build = Inr []"
  by (simp add: build_records_def)

lemma build_result_empty:
  "build_result now (JObj []) ms ls = Inr (new_result now (length ms) (length ls))"
  by (simp add: build_result_def build_records_empty new_result_def)

lemma build_result_Inr:
  assumes "build_result now d ms ls = Inr r"
  shows "build_records d ''customer_profiles'' build_customer_profile = Inr (customer_profiles r)"
    and "build_records d ''pain_points'' build_pain_point = Inr (pain_points r)"
    and "build_records d ''questions'' build_question = Inr (questions r)"
    and "build_records d ''objections'' build_objection = Inr (objections r)"
    and "build_records d ''language_patterns'' build_language_pattern = Inr (language_patterns r)"
    and "py_get d ''value_propositions'' (JArr []) = Inr (value_propositions r)"
    and "py_get d ''marketing_recommendations'' (JArr []) = Inr (marketing_recommendations r)"
    and "py_get d ''messaging_guidelines'' (JArr []) = Inr (messaging_guidelines r)"
    and "py_get d ''conversion_triggers'' (JArr []) = Inr (conversion_triggers r)"
    and "for_each count_category (pain_points r) [] = Inr (top_pain_categories r)"
    and "common_questions r = map q_text (take 10 (questions r))"
    and "meetings_analyzed r = length ms" and "total_lead_statements r = length ls"
proof -
  from assms obtain cps pps qs objs lps vps mrs mgs cts tp where
    c: "build_records d ''customer_profiles'' build_customer_profile = Inr cps"
       "build_records d ''pain_points'' build_pain_point = Inr pps"
       "build_records d ''questions'' build_question = Inr qs"
       "build_records d ''objections'' build_objection = Inr objs"
       "build_records d ''language_patterns'' build_language_pattern = Inr lps"
       "py_get d ''value_propositions'' (JArr []) = Inr vps"
       "py_get d ''marketing_recommendations'' (JArr []) = Inr mrs"
       "py_get d ''messaging_guidelines'' (JArr []) = Inr mgs"
       "py_get d ''conversion_triggers'' (JArr []) = Inr cts"
       "for_each count_category pps [] = Inr tp"
    and r: "r = (new_result now (length ms) (length ls))
          \<lparr>customer_profiles := cps, pain_points := pps, questions := qs,
           objections := objs, language_patterns := lps,
           value_propositions := vps, marketing_recommendations := mrs,
           messaging_guidelines := mgs, conversion_triggers := cts,
           top_pain_categories := tp,
           common_questions := map q_text (take 10 qs)\<rparr>"
    unfolding build_result_def rbind_Inr_iff by blast
  show "build_records d ''customer_profiles'' build_customer_profile = Inr (customer_profiles r)"
    using c r by simp
  show "build_records d ''pain_points'' build_pain_point = Inr (pain_points r)"
    using c r by simp
  show "build_records d ''questions'' build_question = Inr (questions r)"
    using c r by simp
  show "build_records d ''objections'' build_objection = Inr (objections r)"
    using c r by simp
  show "build_records d ''language_patterns'' build_language_pattern = Inr (language_patterns r)"
    using c r by simp
  show "py_get d ''value_propositions'' (JArr []) = Inr (value_propositions r)"
    using c r by simp
  show "py_get d ''marketing_recommendations'' (JArr []) = Inr (marketing_recommendations r)"
    using c r by simp
  show "py_get d ''messaging_guidelines'' (JArr []) = Inr (messaging_guidelines r)"
    using c r by simp
  show "py_get d ''conversion_triggers'' (JArr []) = Inr (conversion_triggers r)"
    using c r by simp
  show "for_each count_category (pain_points r) [] = Inr (top_pain_categories r)"
    using c r by simp
  show "common_questions r = map q_text (take 10 (questions r))"
    using r by simp
  show "meetings_analyzed r = length ms" using r by (simp add: new_result_def)
  show "total_lead_statements r = length ls" using r by (simp add: new_result_def)
qed

lemma build_result_total:
  assumes "build_records d ''customer_profiles'' build_customer_profile = Inr cps"
       "build_records d ''pain_points'' build_pain_point = Inr pps"
       "build_records d ''questions'' build_question = Inr qs"
       "build_records d ''objections'' build_objection = Inr objs"
       "build_records d ''language_patterns'' build_language_pattern = Inr lps"
       "d = JObj kvs"
       "for_each count_category pps [] = Inr tp"
  shows "\<exists>r. build_result now d ms ls = Inr r"
  using assms by (simp add: build_result_def)

lemma dict_lookup_Nil: "dict_lookup [] k = None"
  by (simp add: dict_lookup_def)

lemma dict_lookup_Cons:
  "dict_lookup ((c, n) # d) k = (if hash_key c = Inr k then Some n else dict_lookup d k)"
  by (auto simp: dict_lookup_def)

lemma dict_lookup_incr_key:
  "hash_key cat = Inr k \<Longrightarrow>
   dict_lookup (incr_key k cat d) k' =
     (if k' = k then Some ((case dict_lookup d k of None \<Rightarrow> 0 | Some n \<Rightarrow> n) + 1)
      else dict_lookup d k')"
proof (induction d)
  case Nil
  then show ?case by (auto simp: dict_lookup_Cons dict_lookup_Nil)
next
  case (Cons a d)
  obtain c n where a: "a = (c, n)" by (cases a)
  show ?case
    unfolding a using Cons by (auto simp: dict_lookup_Cons)
qed

lemma keys_incr_key:
  "hash_key cat = Inr k \<Longrightarrow>
   set (map (\<lambda>(c, n). hash_key c) (incr_key k cat d))
     = insert (Inr k) (set (map (\<lambda>(c, n). hash_key c) d))"
proof (induction d)
  case Nil
  then show ?case by simp
next
  case (Cons a d)
  obtain c n where a: "a = (c, n)" by (cases a)
  show ?case
  proof (cases "hash_key c = Inr k")
    case True
    then show ?thesis unfolding a by auto
  next
    case False
    then show ?thesis unfolding a using Cons by auto
  qed
qed

lemma distinct_incr_key:
  "hash_key cat = Inr k \<Longrightarrow> distinct (map (\<lambda>(c, n). hash_key c) d) \<Longrightarrow>
   distinct (map (\<lambda>(c, n). hash_key c) (incr_key k cat d))"
proof (induction d)
  case Nil
  then show ?case by simp
next
  case (Cons a d)
  obtain c n where a: "a = (c, n)" by (cases a)
  show ?case
  proof (cases "hash_key c = Inr k")
    case True
    with Cons.prems show ?thesis unfolding a by simp
  next
    case False
    have "hash_key c \<notin> set (map (\<lambda>(c, n). hash_key c) (incr_key k cat d))"
      using Cons.prems False unfolding a keys_incr_key[OF Cons.prems(1)] by auto
    with Cons False show ?thesis unfolding a by simp
  qed
qed

lemma count_step:
  assumes "for_each count_category (pp # pps) d = Inr tp"
  obtains kk where "hash_key (pp_category pp) = Inr kk"
    and "for_each count_category pps (incr_key kk (pp_category pp) d) = Inr tp"
proof -
  from assms obtain d1 where s: "count_category pp d = Inr d1"
    and r: "for_each count_category pps d1 = Inr tp"
    by (auto split: sum.splits)
  from s obtain kk where "hash_key (pp_category pp) = Inr kk"
    and "d1 = incr_key kk (pp_category pp) d"
    by (auto simp: count_category_def rbind_Inr_iff)
  with r that show ?thesis by simp
qed

lemma for_each_count_category:
  "for_each count_category pps d = Inr tp \<Longrightarrow>
   dict_lookup tp k =
     (case dict_lookup d k of
        None \<Rightarrow> if category_count pps k = 0 then None else Some (int (category_count pps k))
      | Some n \<Rightarrow> Some (n + int (category_count pps k)))"
proof (induction pps arbitrary: d)
  case Nil
  then show ?case by (simp add: category_count_def split: option.splits)
next
  case (Cons pp pps)
  from Cons.prems obtain kk where kk: "hash_key (pp_category pp) = Inr kk"
    and rest: "for_each count_category pps (incr_key kk (pp_category pp) d) = Inr tp"
    by (rule count_step)
  from Cons.IH[OF rest] show ?case
    using kk by (auto simp: dict_lookup_incr_key category_count_def split: option.splits)
qed

lemma for_each_count_distinct:
  "for_each count_category pps d = Inr tp \<Longrightarrow> distinct (map (\<lambda>(c, n). hash_key c) d) \<Longrightarrow>
   distinct (map (\<lambda>(c, n). hash_key c) tp)"
proof (induction pps arbitrary: d)
  case Nil
  then show ?case by simp
next
  case (Cons pp pps)
  from Cons.prems(1) obtain kk where kk: "hash_key (pp_category pp) = Inr kk"
    and rest: "for_each count_category pps (incr_key kk (pp_category pp) d) = Inr tp"
    by (rule count_step)
  from Cons.IH[OF rest distinct_incr_key[OF kk Cons.prems(2)]] show ?case .
qed

lemma for_each_count_total:
  "list_all (\<lambda>pp. hashable (pp_category pp)) pps \<Longrightarrow> \<exists>tp. for_each count_category pps d = Inr tp"
proof (induction pps arbitrary: d)
  case Nil
  then show ?case by simp
next
  case (Cons pp pps)
  then obtain kk where "hash_key (pp_category pp) = Inr kk"
    using hashable_Inr by auto
  with Cons show ?case by (simp add: count_category_def)
qed

lemma matches_schema_build:
  assumes "matches_schema (JObj kvs)"
  shows "\<exists>r. build_result now (JObj kvs) ms ls = Inr r"
proof -
  from assms have ok: "records_ok kvs ''customer_profiles''" "records_ok kvs ''pain_points''"
    "records_ok kvs ''questions''" "records_ok kvs ''objections''"
    "records_ok kvs ''language_patterns''"
    and cat: "list_all category_ok (array_of kvs ''pain_points'')"
    by (simp_all add: matches_schema_def)
  from build_records_ok[OF ok(1), of build_customer_profile] build_customer_profile_obj
  obtain cps where cps: "build_records (JObj kvs) ''customer_profiles'' build_customer_profile = Inr cps"
    by blast
  from build_records_ok[OF ok(2), of build_pain_point] build_pain_point_obj
  obtain pps where pps: "build_records (JObj kvs) ''pain_points'' build_pain_point = Inr pps"
    by blast
  from build_records_ok[OF ok(3), of build_question] build_question_obj
  obtain qs where qs: "build_records (JObj kvs) ''questions'' build_question = Inr qs"
    by blast
  from build_records_ok[OF ok(4), of build_objection] build_objection_obj
  obtain objs where objs: "build_records (JObj kvs) ''objections'' build_objection = Inr objs"
    by blast
  from build_records_ok[OF ok(5), of build_language_pattern] build_language_pattern_obj
  obtain lps where lps: "build_records (JObj kvs) ''language_patterns'' build_language_pattern = Inr lps"
    by blast
  have "list_all (\<lambda>pp. hashable (pp_category pp)) pps"
  proof (cases "map_of kvs ''pain_points''")
    case None
    with pps show ?thesis by (simp add: build_records_absent)
  next
    case (Some v)
    with ok(2) obtain xs where v: "v = JArr xs"
      by (cases v) (auto simp: records_ok_def)
    with Some pps have m: "map_res build_pain_point xs = Inr pps"
      by (simp add: build_records_array)
    from Some v cat have c: "list_all category_ok xs" by (simp add: array_of_def)
    have "\<forall>pp\<in>set pps. hashable (pp_category pp)"
    proof
      fix pp assume "pp \<in> set pps"
      with map_res_Inr[OF m] obtain x where x: "x \<in> set xs" "build_pain_point x = Inr pp"
        by blast
      from x(1) c have "category_ok x" by (simp add: list_all_iff)
      with x(2) show "hashable (pp_category pp)"
        by (auto simp: category_ok_def build_pain_point_def rbind_Inr_iff split: sum.splits)
    qed
    then show ?thesis by (simp add: list_all_iff)
  qed
  from for_each_count_total[OF this] obtain tp where "for_each count_category pps [] = Inr tp"
    by blast
  from build_result_total[OF cps pps qs objs lps refl this] show ?thesis .
qed

lemma ingest_undecodable:
  assumes "undecodable loads resp"
  shows "ingest_response loads now (Inr resp) ms ls = Inr (new_result now (length ms) (length ls))"
  using parse_response_undecodable[OF assms] by (simp add: ingest_response_def build_result_empty)

text \<open>
  The three stages of \<open>_parse_response\<close>, for every response text and every decoder: the
  value of the whole text when that decodes; else the value of the span from the first
  opening brace to the last closing brace when there is such a span and it decodes; else
  the empty object, from which a result with empty record lists and the caller's counts is
  built.
\<close>

lemma parse_response_stages:
  "(loads resp = Some v \<longrightarrow> parse_response loads resp = v) \<and>
   (loads resp = None \<longrightarrow> json_match resp = Some m \<longrightarrow> loads m = Some v \<longrightarrow>
      parse_response loads resp = v) \<and>
   (json_match resp = Some m \<longleftrightarrow>
      (\<exists>pre body post. resp = pre @ [CHR ''{''] @ body @ [CHR ''}''] @ post \<and>
         CHR ''{'' \<notin> set pre \<and> CHR ''}'' \<notin> set post \<and> m = [CHR ''{''] @ body @ [CHR ''}''])) \<and>
   (undecodable loads resp \<longrightarrow>
      parse_response loads resp = JObj [] \<and>
      ingest_response loads now (Inr resp) ms ls =
        Inr \<lparr>timestamp = now, meetings_analyzed = length ms, total_lead_statements = length ls,
             customer_profiles = [], pain_points = [], questions = [], objections = [],
             language_patterns = [], top_pain_categories = [], common_questions = [],
             conversion_triggers = JArr [], value_propositions = JArr [],
             marketing_recommendations = JArr [], messaging_guidelines = JArr []\<rparr>)"
proof (intro conjI impI)
  assume "loads resp = Some v"
  then show "parse_response loads resp = v" by (simp add: parse_response_def)
next
  assume "loads resp = None" "json_match resp = Some m" "loads m = Some v"
  then show "parse_response loads resp = v" by (simp add: parse_response_def)
next
  show "json_match resp = Some m \<longleftrightarrow>
      (\<exists>pre body post. resp = pre @ [CHR ''{''] @ body @ [CHR ''}''] @ post \<and>
         CHR ''{'' \<notin> set pre \<and> CHR ''}'' \<notin> set post \<and> m = [CHR ''{''] @ body @ [CHR ''}''])"
    using json_match_elim[of resp m] json_match_intro by blast
next
  assume "undecodable loads resp"
  then show "parse_response loads resp = JObj []" by (rule parse_response_undecodable)
next
  assume "undecodable loads resp"
  from ingest_undecodable[OF this] show "ingest_response loads now (Inr resp) ms ls =
        Inr \<lparr>timestamp = now, meetings_analyzed = length ms, total_lead_statements = length ls,
             customer_profiles = [], pain_points = [], questions = [], objections = [],
             language_patterns = [], top_pain_categories = [], common_questions = [],
             conversion_triggers = JArr [], value_propositions = JArr [],
             marketing_recommendations = JArr [], messaging_guidelines = JArr []\<rparr>"
    by (simp add: new_result_def)
qed

text \<open>
  Claim C3, evaluated where the code departs from it. The claim says that response
  ingestion never raises. The response text \<open>[]\<close> decodes at the first attempt, to a
  list; \<open>_parse_response\<close>, declared to return a dict, returns the list, and
  \<open>_build_result\<close>, which runs after the \<open>try\<close> block, calls \<open>.get\<close> on it: the
  \<open>AttributeError\<close> leaves \<open>analyze_meetings\<close>. The other unusable answers end in the empty
  result that the claim describes: a text that does not decode, and a provider call that
  raised.
\<close>

theorem C3_raises_on_non_object:
  "json_loads ''[]'' = Some (JArr []) \<and>
   parse_response json_loads ''[]'' = JArr [] \<and>
   ingest_response json_loads ex_date (Inr ''[]'') [ex_meeting] (m_sentences ex_meeting)
     = Inl AttributeError \<and>
   analyze_meetings json_loads ex_date (Inr ''[]'') [ex_meeting] None = Inl AttributeError \<and>
   analyze_meetings json_loads ex_date (Inr ''not json at all'') [ex_meeting] None
     = Inr (new_result ex_date 1 2) \<and>
   analyze_meetings json_loads ex_date (Inl ValueError) [ex_meeting] None
     = Inr (new_result ex_date 1 2)"
  by code_simp

lemma build_result_absent:
  assumes "build_result now (JObj kvs) ms ls = Inr r"
  shows "map_of kvs ''customer_profiles'' = None \<Longrightarrow> customer_profiles r = []"
    and "map_of kvs ''pain_points'' = None \<Longrightarrow> pain_points r = []"
    and "map_of kvs ''questions'' = None \<Longrightarrow> questions r = []"
    and "map_of kvs ''objections'' = None \<Longrightarrow> objections r = []"
    and "map_of kvs ''language_patterns'' = None \<Longrightarrow> language_patterns r = []"
  using build_result_Inr(1-5)[OF assms] by (simp_all add: build_records_absent)

text \<open>
  Claim C4, evaluated where the code departs from it. The claim says that a record key
  whose value is not an array yields an empty list. The default of \<open>.get(key, [])\<close> only
  serves an absent key: with the number 5 under \<open>pain_points\<close>, or \<open>null\<close> under
  \<open>questions\<close>, the \<open>for\<close> loop runs over the value itself and the \<open>TypeError\<close> leaves
  \<open>analyze_meetings\<close>. With the key absent the list is empty, as the claim says.
\<close>

theorem C4_non_array_raises:
  "json_loads ''{\"pain_points\": 5}'' = Some (JObj [(''pain_points'', JInt 5)]) \<and>
   build_result ex_date (JObj [(''pain_points'', JInt 5)]) [] [] = Inl TypeError \<and>
   build_result ex_date (JObj [(''questions'', JNull)]) [] [] = Inl TypeError \<and>
   analyze_meetings json_loads ex_date (Inr ''{\"pain_points\": 5}'') [ex_meeting] None
     = Inl TypeError \<and>
   analyze_meetings json_loads ex_date (Inr ''{\"questions\": null}'') [ex_meeting] None
     = Inl TypeError \<and>
   analyze_meetings json_loads ex_date (Inr ''{}'') [ex_meeting] None
     = Inr (new_result ex_date 1 2)"
  by code_simp

lemma build_records_length:
  assumes "build_records (JObj kvs) key build = Inr ys" "records_ok kvs key"
  shows "length ys = length (array_of kvs key)"
proof (cases "map_of kvs key")
  case None
  with assms(1) show ?thesis by (simp add: build_records_absent array_of_def)
next
  case (Some v)
  with assms(2) obtain xs where v: "v = JArr xs"
    by (cases v) (auto simp: records_ok_def)
  with Some assms(1) have "map_res build xs = Inr ys" by (simp add: build_records_array)
  from map_res_Inr[OF this] Some v show ?thesis by (simp add: array_of_def)
qed

lemma passthrough_length:
  assumes "py_get (JObj kvs) key (JArr []) = Inr v" "passthrough_ok kvs key"
  shows "json_len v = length (array_of kvs key)"
proof (cases "map_of kvs key")
  case None
  with assms(1) show ?thesis by (auto simp: array_of_def json_len_def)
next
  case (Some w)
  with assms(2) obtain xs where "w = JArr xs"
    by (cases w) (auto simp: passthrough_ok_def)
  with Some assms(1) show ?thesis by (auto simp: array_of_def json_len_def)
qed

text \<open>
  Claim C5 as stated fails for a text that merely contains the object. The response
  \<open>as asked {see below}: {"pain_points": [{"category": "Cost"}]}\<close> contains a well-formed
  object with one pain point, but the prose has a brace of its own: the whole text does
  not decode, the span from the first brace to the last does not either, and ingestion
  falls back to the empty object, with zero pain points.
\<close>

theorem C5_brace_in_prose_loses_records:
  "ex_brace_text = ''as asked {see below}: '' @ ex_object_text \<and>
   json_loads ex_object_text =
     Some (JObj [(''pain_points'', JArr [JObj [(''category'', JStr ''Cost'')]])]) \<and>
   matches_schema (JObj [(''pain_points'', JArr [JObj [(''category'', JStr ''Cost'')]])]) \<and>
   ingest_response json_loads ex_date (Inr ex_brace_text) [] [] = Inr (new_result ex_date 0 0) \<and>
   pain_points (new_result ex_date 0 0) = []"
  by code_simp

text \<open>
  Claim C5, amended. For every response text that decodes, as a whole or else through its
  span from the first opening brace to the last closing brace, to an object of the
  documented shape, ingestion returns a result in which each record list and each
  pass-through list is as long as the array under its key (empty when the key is absent).
\<close>

theorem C5_roundtrip_counts:
  assumes "decodes_to loads resp (JObj kvs)" and "matches_schema (JObj kvs)"
  shows "\<exists>r. ingest_response loads now (Inr resp) ms ls = Inr r \<and>
     length (customer_profiles r) = length (array_of kvs ''customer_profiles'') \<and>
     length (pain_points r) = length (array_of kvs ''pain_points'') \<and>
     length (questions r) = length (array_of kvs ''questions'') \<and>
     length (objections r) = length (array_of kvs ''objections'') \<and>
     length (language_patterns r) = length (array_of kvs ''language_patterns'') \<and>
     json_len (value_propositions r) = length (array_of kvs ''value_propositions'') \<and>
     json_len (marketing_recommendations r) = length (array_of kvs ''marketing_recommendations'') \<and>
     json_len (messaging_guidelines r) = length (array_of kvs ''messaging_guidelines'') \<and>
     json_len (conversion_triggers r) = length (array_of kvs ''conversion_triggers'')"
proof -
  from assms(2) have ok: "records_ok kvs ''customer_profiles''" "records_ok kvs ''pain_points''"
    "records_ok kvs ''questions''" "records_ok kvs ''objections''"
    "records_ok kvs ''language_patterns''"
    and pt: "passthrough_ok kvs ''value_propositions''"
      "passthrough_ok kvs ''marketing_recommendations''"
      "passthrough_ok kvs ''messaging_guidelines''" "passthrough_ok kvs ''conversion_triggers''"
    by (simp_all add: matches_schema_def)
  from matches_schema_build[OF assms(2)] obtain r
    where r: "build_result now (JObj kvs) ms ls = Inr r" by blast
  have i: "ingest_response loads now (Inr resp) ms ls = Inr r"
    using parse_response_decodes[OF assms(1)] r by (simp add: ingest_response_def)
  note f = build_result_Inr[OF r]
  show ?thesis
    using i build_records_length[OF f(1) ok(1)] build_records_length[OF f(2) ok(2)]
      build_records_length[OF f(3) ok(3)] build_records_length[OF f(4) ok(4)]
      build_records_length[OF f(5) ok(5)]
      passthrough_length[OF f(6) pt(1)] passthrough_length[OF f(7) pt(2)]
      passthrough_length[OF f(8) pt(3)] passthrough_length[OF f(9) pt(4)]
    by blast
qed

theorem C5_roundtrip_counts_witness:
  "decodes_to json_loads ex_wrapped_text
     (JObj [(''pain_points'', JArr [JObj [(''category'', JStr ''Cost'')]])]) \<and>
   matches_schema (JObj [(''pain_points'', JArr [JObj [(''category'', JStr ''Cost'')]])]) \<and>
   (\<exists>r. ingest_response json_loads ex_date (Inr ex_wrapped_text) [] [] = Inr r \<and>
        length (pain_points r) = 1 \<and> length (questions r) = 0)"
proof -
  have d: "decodes_to json_loads ex_wrapped_text
     (JObj [(''pain_points'', JArr [JObj [(''category'', JStr ''Cost'')]])])"
    by code_simp
  have m: "matches_schema (JObj [(''pain_points'', JArr [JObj [(''category'', JStr ''Cost'')]])])"
    by code_simp
  from C5_roundtrip_counts[OF d m, of ex_date "[]" "[]"] d m show ?thesis
    by (auto simp: array_of_def)
qed

text \<open>
  Claim C6. Whenever \<open>_build_result\<close> returns, and it returns on every object of the
  documented shape, \<open>top_pain_categories\<close> maps each key to the number of pain points whose
  category has that key and holds no key that no pain point carries, each key once; and
  \<open>common_questions\<close> is the list of the \<open>text\<close> fields of the first ten questions, in
  order (of all of them when there are fewer).
\<close>

theorem C6_aggregation:
  "(matches_schema d \<longrightarrow> (\<exists>r. build_result now d ms ls = Inr r)) \<and>
   (build_result now d ms ls = Inr r \<longrightarrow>
      (\<forall>k. dict_lookup (top_pain_categories r) k =
             (if category_count (pain_points r) k = 0 then None
              else Some (int (category_count (pain_points r) k)))) \<and>
      distinct (map (\<lambda>(c, n). hash_key c) (top_pain_categories r)) \<and>
      common_questions r = map q_text (take 10 (questions r)))"
proof (intro conjI impI)
  assume "matches_schema d"
  then obtain kvs where "d = JObj kvs" by (cases d) (auto simp: matches_schema_def)
  with \<open>matches_schema d\<close> matches_schema_build show "\<exists>r. build_result now d ms ls = Inr r"
    by blast
next
  assume r: "build_result now d ms ls = Inr r"
  note f = build_result_Inr[OF r]
  show "\<forall>k. dict_lookup (top_pain_categories r) k =
             (if category_count (pain_points r) k = 0 then None
              else Some (int (category_count (pain_points r) k)))"
    using for_each_count_category[OF f(10)] by (simp add: dict_lookup_Nil)
  show "distinct (map (\<lambda>(c, n). hash_key c) (top_pain_categories r))"
    using for_each_count_distinct[OF f(10)] by simp
  show "common_questions r = map q_text (take 10 (questions r))"
    by (rule f(11))
qed

theorem C6_aggregation_witness:
  "matches_schema ex_analysis \<and>
   (\<exists>r. build_result ex_date ex_analysis [] [] = Inr r \<and>
        top_pain_categories r = [(JStr ''Technical'', 2), (JStr ''Cost'', 1)] \<and>
        dict_lookup (top_pain_categories r) (KStr ''Technical'') = Some 2 \<and>
        category_count (pain_points r) (KStr ''Technical'') = 2 \<and>
        length (questions r) = 15 \<and>
        common_questions r = map (\<lambda>i. JStr (''q'' @ str_nat i)) [0..<10])"
proof -
  have m: "matches_schema ex_analysis"
    by code_simp
  obtain r where r: "build_result ex_date ex_analysis [] [] = Inr r"
    and t: "top_pain_categories r = [(JStr ''Technical'', 2), (JStr ''Cost'', 1)]"
    and c: "common_questions r = map (\<lambda>i. JStr (''q'' @ str_nat i)) [0..<10]"
    and l: "length (questions r) = 15"
  proof -
    have "case build_result ex_date ex_analysis [] [] of Inl e \<Rightarrow> False | Inr r \<Rightarrow>
       top_pain_categories r = [(JStr ''Technical'', 2), (JStr ''Cost'', 1)] \<and>
       common_questions r = map (\<lambda>i. JStr (''q'' @ str_nat i)) [0..<10] \<and>
       length (questions r) = 15"
      by code_simp
    then show ?thesis using that by (auto split: sum.splits)
  qed
  have lk: "dict_lookup (top_pain_categories r) (KStr ''Technical'') = Some 2"
    unfolding t by (simp add: dict_lookup_Cons)
  from C6_aggregation[of ex_analysis ex_date "[]" "[]" r] r lk
  have cc: "category_count (pain_points r) (KStr ''Technical'') = 2"
    by (auto split: if_splits)
  from m r t c l lk cc show ?thesis by blast
qed






section \<open>Properties of the Markdown export\<close>

lemma not_heading_simps [simp]:
  "\<not> is_heading []"
  "c \<noteq> CHR ''#'' \<Longrightarrow> \<not> is_heading (c # s)"
  "\<not> is_heading (CHR ''#'' # CHR ''#'' # CHR ''#'' # s)"
  "\<not> is_heading (CHR ''#'' # CHR '' '' # s)"
  "is_heading (CHR ''#'' # CHR ''#'' # CHR '' '' # s)"
  by (simp_all add: is_heading_def)

lemma nh_opt:
  "\<not> is_heading (label @ py_str r v) \<Longrightarrow> filter is_heading (opt_line r label v) = []"
  by (simp add: opt_line_def)

lemma nh_concat_map:
  "(\<And>x. x \<in> set xs \<Longrightarrow> filter P (f x) = []) \<Longrightarrow> filter P (concat (map f xs)) = []"
  by (induction xs) auto

lemma nh_lines_of:
  assumes "lines_of body xs = Inr ls"
    and "\<And>x ys. x \<in> set xs \<Longrightarrow> body x = Inr ys \<Longrightarrow> filter is_heading ys = []"
  shows "filter is_heading ls = []"
proof -
  from assms(1) obtain yss where m: "map_res body xs = Inr yss" and ls: "ls = concat yss"
    by (auto simp: lines_of_def rbind_Inr_iff)
  from map_res_Inr[OF m] assms(2) have "\<forall>ys\<in>set yss. filter is_heading ys = []"
    by blast
  then have "filter is_heading (concat (map id yss)) = []"
    by (intro nh_concat_map) simp
  with ls show ?thesis by simp
qed

lemma nh_header: "filter is_heading (header_lines res) = []"
  by (simp add: header_lines_def)

lemma nh_quote: "quote_lines r q = Inr ls \<Longrightarrow> filter is_heading ls = []"
  by (auto simp: quote_lines_def rbind_Inr_iff split: if_splits)

lemma nh_profile:
  assumes "profile_lines r ip = Inr ls"
  shows "filter is_heading ls = []"
proof -
  obtain i profile where ip: "ip = (i, profile)" by (cases ip)
  from assms[unfolded ip profile_lines_def prod.case rbind_Inr_iff]
  obtain qp where qp: "(if py_truthy (cp_supporting_quotes profile)
             then rbind (py_iter (cp_supporting_quotes profile)) (\<lambda>quotes.
                  rbind (lines_of (quote_lines r) quotes) (\<lambda>ql.
                  Inr (['''', ''**Unterst'' @ [CHR 0xFC] @ ''tzende Zitate:**''] @ ql)))
             else Inr []) = Inr qp"
    and ls: "ls = [''### Profil '' @ str_nat i]
           @ opt_line r ''- **Unternehmen:** '' (cp_company_name profile)
           @ opt_line r ''- **Branche:** '' (cp_industry profile)
           @ opt_line r ''- **Entscheider-Rolle:** '' (cp_decision_maker_role profile)
           @ opt_line r (''- **Gesch'' @ [CHR 0xE4] @ ''ftskontext:** '')
               (cp_business_context profile)
           @ opt_line r ''- **Dringlichkeit:** '' (cp_timeline_urgency profile)
           @ qp
           @ ['''']"
    by auto
  have "filter is_heading qp = []"
  proof (cases "py_truthy (cp_supporting_quotes profile)")
    case False
    with qp show ?thesis by simp
  next
    case True
    with qp obtain quotes ql where "lines_of (quote_lines r) quotes = Inr ql"
      and q: "qp = ['''', ''**Unterst'' @ [CHR 0xFC] @ ''tzende Zitate:**''] @ ql"
      by (auto simp: rbind_Inr_iff)
    from nh_lines_of[OF this(1)] nh_quote have "filter is_heading ql = []" by blast
    with q show ?thesis by simp
  qed
  then show ?thesis unfolding ls by (simp add: nh_opt)
qed

lemma profiles_section_headings:
  assumes "profiles_section r res = Inr ls"
  shows "filter is_heading ls =
           (if customer_profiles res \<noteq> [] then [''## 1. Kunden-Insight-Profile''] else [])"
proof (cases "customer_profiles res = []")
  case True
  with assms show ?thesis by (simp add: profiles_section_def)
next
  case False
  with assms obtain body where
    b: "lines_of (profile_lines r)
          (zip [1..<Suc (length (customer_profiles res))] (customer_profiles res)) = Inr body"
    and ls: "ls = [''## 1. Kunden-Insight-Profile'', []] @ body"
    by (auto simp: profiles_section_def rbind_Inr_iff)
  from nh_lines_of[OF b] nh_profile have "filter is_heading body = []" by blast
  with ls False show ?thesis by simp
qed

lemma nh_pain_point: "filter is_heading (pain_point_lines r dash pp) = []"
  by (simp add: pain_point_lines_def nh_opt)

lemma nh_pain_group: "filter is_heading (pain_group_lines r dash g) = []"
  by (cases g) (simp add: pain_group_lines_def nh_concat_map nh_pain_point)

lemma pain_section_headings:
  assumes "pain_section r dash res = Inr ls"
  shows "filter is_heading ls = (if pain_points res \<noteq> [] then [''## 2. Pain Point Matrix''] else [])"
  using assms
  by (auto simp: pain_section_def rbind_Inr_iff nh_concat_map nh_pain_group split: if_splits)

lemma nh_question: "filter is_heading (question_lines r q) = []"
  by (simp add: question_lines_def nh_opt)

lemma nh_question_group: "filter is_heading (question_group_lines r g) = []"
  by (cases g) (simp add: question_group_lines_def nh_concat_map nh_question)

lemma questions_section_headings:
  assumes "questions_section r res = Inr ls"
  shows "filter is_heading ls = (if questions res \<noteq> [] then [''## 3. Lead-Fragen''] else [])"
  using assms
  by (auto simp: questions_section_def rbind_Inr_iff nh_concat_map nh_question_group
           split: if_splits)

lemma nh_objection: "filter is_heading (objection_lines r dash obj) = []"
  by (simp add: objection_lines_def nh_opt)

lemma objections_section_headings:
  "filter is_heading (objections_section r dash res) =
     (if objections res \<noteq> [] then [''## 4. Einwand-Analyse''] else [])"
  by (simp add: objections_section_def nh_concat_map nh_objection)

lemma nh_pattern: "filter is_heading (pattern_lines r dash lp) = []"
  by (simp add: pattern_lines_def nh_opt)

lemma nh_pattern_group: "filter is_heading (pattern_group_lines r dash lps c) = []"
  by (cases c) (simp add: pattern_group_lines_def Let_def nh_concat_map nh_pattern)

lemma language_section_headings:
  "filter is_heading (language_section r dash res) =
     (if language_patterns res \<noteq> [] then [''## 5. Sprachanalyse''] else [])"
  by (simp add: language_section_def nh_concat_map nh_pattern_group)

lemma passthrough_section_headings:
  assumes "passthrough_section h body v = Inr ls" and "is_heading h"
    and "\<And>x ys. body x = Inr ys \<Longrightarrow> filter is_heading ys = []"
  shows "filter is_heading ls = (if py_truthy v then [h] else [])"
proof (cases "py_truthy v")
  case False
  with assms(1) show ?thesis by (simp add: passthrough_section_def)
next
  case True
  with assms(1) obtain items b where "lines_of body items = Inr b" and ls: "ls = [h, []] @ b"
    by (auto simp: passthrough_section_def rbind_Inr_iff)
  from nh_lines_of[OF this(1)] assms(3) have "filter is_heading b = []" by blast
  with ls True assms(2) show ?thesis by simp
qed

lemma nh_value_proposition: "value_proposition_lines r x = Inr ys \<Longrightarrow> filter is_heading ys = []"
  by (auto simp: value_proposition_lines_def rbind_Inr_iff)

lemma nh_recommendation: "recommendation_lines r x = Inr ys \<Longrightarrow> filter is_heading ys = []"
  by (auto simp: recommendation_lines_def rbind_Inr_iff)

lemma nh_guideline: "guideline_lines r x = Inr ys \<Longrightarrow> filter is_heading ys = []"
  by (auto simp: guideline_lines_def rbind_Inr_iff)

lemma nh_trigger: "trigger_lines r x = Inr ys \<Longrightarrow> filter is_heading ys = []"
  by (auto simp: trigger_lines_def)

lemma triggers_section_headings:
  assumes "triggers_section r v = Inr ls"
  shows "filter is_heading ls = (if py_truthy v then [''## 9. Conversion Triggers''] else [])"
proof -
  from assms obtain b where
    b: "passthrough_section ''## 9. Conversion Triggers'' (trigger_lines r) v = Inr b"
    and ls: "ls = (if py_truthy v then b @ [''''] else b)"
    by (auto simp: triggers_section_def rbind_Inr_iff)
  have "filter is_heading b = (if py_truthy v then [''## 9. Conversion Triggers''] else [])"
    by (rule passthrough_section_headings[OF b]) (simp_all add: nh_trigger)
  with ls show ?thesis by simp
qed

lemma markdown_lines_headings:
  assumes "markdown_lines r dash res = Inr ls"
  shows "filter is_heading ls = section_headings res"
proof -
  from assms[unfolded markdown_lines_def rbind_Inr_iff]
  obtain s1 s2 s3 s6 s7 s8 s9 where
    s: "profiles_section r res = Inr s1" "pain_section r dash res = Inr s2"
       "questions_section r res = Inr s3"
       "passthrough_section ''## 6. Value Propositions'' (value_proposition_lines r)
          (value_propositions res) = Inr s6"
       "passthrough_section ''## 7. Marketing-Empfehlungen'' (recommendation_lines r)
          (marketing_recommendations res) = Inr s7"
       "passthrough_section ''## 8. Messaging-Leitfaden'' (guideline_lines r)
          (messaging_guidelines res) = Inr s8"
       "triggers_section r (conversion_triggers res) = Inr s9"
    and ls: "ls = header_lines res @ s1 @ s2 @ s3 @ objections_section r dash res
               @ language_section r dash res @ s6 @ s7 @ s8 @ s9"
    by auto
  have 6: "filter is_heading s6 =
       (if py_truthy (value_propositions res) then [''## 6. Value Propositions''] else [])"
    by (rule passthrough_section_headings[OF s(4)]) (simp_all add: nh_value_proposition)
  have 7: "filter is_heading s7 =
       (if py_truthy (marketing_recommendations res) then [''## 7. Marketing-Empfehlungen'']
        else [])"
    by (rule passthrough_section_headings[OF s(5)]) (simp_all add: nh_recommendation)
  have 8: "filter is_heading s8 =
       (if py_truthy (messaging_guidelines res) then [''## 8. Messaging-Leitfaden''] else [])"
    by (rule passthrough_section_headings[OF s(6)]) (simp_all add: nh_guideline)
  show ?thesis
    unfolding ls section_headings_def filter_append nh_header
      profiles_section_headings[OF s(1)] pain_section_headings[OF s(2)]
      questions_section_headings[OF s(3)] objections_section_headings
      language_section_headings 6 7 8 triggers_section_headings[OF s(7)]
    by simp
qed

lemma split_lines_no_newline: "CHR 0x0A \<notin> set l \<Longrightarrow> split_lines l = [l]"
  by (induction l) auto

lemma split_lines_append:
  "CHR 0x0A \<notin> set l \<Longrightarrow> split_lines (l @ CHR 0x0A # rest) = l # split_lines rest"
  by (induction l) auto

lemma split_join_lines:
  "ls \<noteq> [] \<Longrightarrow> \<forall>l\<in>set ls. CHR 0x0A \<notin> set l \<Longrightarrow> split_lines (join_lines ls) = ls"
  by (induction ls rule: join_lines.induct) (auto simp: split_lines_no_newline split_lines_append)

lemma objection_quote_line:
  "(''> \"'' @ py_str r (obj_direct_quote obj) @ ''\"'') \<in> set (objection_lines r dash obj)"
  by (simp add: objection_lines_def)

lemma objections_quote_lines:
  "obj \<in> set (objections res) \<Longrightarrow>
   (''> \"'' @ py_str r (obj_direct_quote obj) @ ''\"'') \<in> set (objections_section r dash res)"
  using objection_quote_line[of r obj dash] by (auto simp: objections_section_def)

lemma markdown_lines_objections:
  assumes "markdown_lines r dash res = Inr ls"
  shows "set (objections_section r dash res) \<subseteq> set ls"
  using assms by (auto simp: markdown_lines_def rbind_Inr_iff)


lemma lines_of_total:
  "(\<forall>x\<in>set xs. \<exists>ys. body x = Inr ys) \<Longrightarrow> \<exists>ls. lines_of body xs = Inr ls"
  using map_res_total[of xs body] by (auto simp: lines_of_def)

lemma dict_list_iter:
  "dict_list v \<Longrightarrow> \<exists>xs. py_iter v = Inr xs \<and> (\<forall>x\<in>set xs. \<exists>f. x = JObj f)"
proof (cases v)
  case (JArr xs)
  assume "dict_list v"
  with JArr have "\<forall>x\<in>set xs. is_obj x" by (simp add: dict_list_def list_all_iff)
  moreover have "is_obj x \<Longrightarrow> \<exists>f. x = JObj f" for x by (cases x) auto
  ultimately show ?thesis using JArr by auto
qed (auto simp: dict_list_def)

lemma passthrough_total:
  assumes "dict_list v" and "\<And>f. \<exists>ys. body (JObj f) = Inr ys"
  shows "\<exists>ls. passthrough_section h body v = Inr ls"
proof -
  from dict_list_iter[OF assms(1)] obtain xs where xs: "py_iter v = Inr xs"
    and o: "\<forall>x\<in>set xs. \<exists>f. x = JObj f" by blast
  from o assms(2) have "\<forall>x\<in>set xs. \<exists>ys. body x = Inr ys" by metis
  from lines_of_total[OF this] obtain ls where "lines_of body xs = Inr ls" ..
  with xs show ?thesis by (simp add: passthrough_section_def)
qed

lemma quote_lines_obj: "\<exists>ys. quote_lines r (JObj f) = Inr ys"
  by (simp add: quote_lines_def)

lemma profile_lines_total:
  assumes "dict_list (cp_supporting_quotes (snd ip))"
  shows "\<exists>ls. profile_lines r ip = Inr ls"
proof -
  obtain i profile where ip: "ip = (i, profile)" by (cases ip)
  from dict_list_iter[OF assms] ip obtain xs where xs: "py_iter (cp_supporting_quotes profile) = Inr xs"
    and o: "\<forall>x\<in>set xs. \<exists>f. x = JObj f" by auto
  from o quote_lines_obj have "\<forall>x\<in>set xs. \<exists>ys. quote_lines r x = Inr ys" by metis
  from lines_of_total[OF this] obtain ql where "lines_of (quote_lines r) xs = Inr ql" ..
  with xs ip show ?thesis by (simp add: profile_lines_def)
qed

lemma profiles_section_total:
  assumes "list_all (\<lambda>cp. dict_list (cp_supporting_quotes cp)) (customer_profiles res)"
  shows "\<exists>ls. profiles_section r res = Inr ls"
proof -
  have "\<forall>ip\<in>set (zip [1..<Suc (length (customer_profiles res))] (customer_profiles res)).
          \<exists>ys. profile_lines r ip = Inr ys"
  proof
    fix ip assume "ip \<in> set (zip [1..<Suc (length (customer_profiles res))] (customer_profiles res))"
    then have "snd ip \<in> set (customer_profiles res)"
      using set_zip_rightD[of "fst ip" "snd ip"] by simp
    with assms have "dict_list (cp_supporting_quotes (snd ip))" by (simp add: list_all_iff)
    then show "\<exists>ys. profile_lines r ip = Inr ys" by (rule profile_lines_total)
  qed
  from lines_of_total[OF this] show ?thesis by (auto simp: profiles_section_def)
qed

lemma group_by_total:
  "list_all (\<lambda>x. hashable (category x)) xs \<Longrightarrow>
   \<exists>g. for_each (group_step category fallback) xs g0 = Inr g"
proof (induction xs arbitrary: g0)
  case Nil
  then show ?case by simp
next
  case (Cons x xs)
  have "hashable (py_or (category x) (JStr fallback))"
    using Cons.prems by (simp add: py_or_def)
  from hashable_Inr[OF this] obtain k where "hash_key (py_or (category x) (JStr fallback)) = Inr k" ..
  then have "group_step category fallback x g0
               = Inr (group_add k (py_or (category x) (JStr fallback)) x g0)"
    by (simp add: group_step_def Let_def)
  with Cons show ?case by simp
qed

lemma value_proposition_obj: "\<exists>ys. value_proposition_lines r (JObj f) = Inr ys"
  by (simp add: value_proposition_lines_def)

lemma recommendation_obj: "\<exists>ys. recommendation_lines r (JObj f) = Inr ys"
  by (simp add: recommendation_lines_def)

lemma guideline_obj: "\<exists>ys. guideline_lines r (JObj f) = Inr ys"
  by (simp add: guideline_lines_def)

lemma triggers_section_total:
  assumes "is_list v"
  shows "\<exists>ls. triggers_section r v = Inr ls"
proof -
  from assms obtain xs where v: "v = JArr xs" by (cases v) auto
  have "\<exists>ls. lines_of (trigger_lines r) xs = Inr ls"
    by (rule lines_of_total) (simp add: trigger_lines_def)
  then show ?thesis using v by (auto simp: triggers_section_def passthrough_section_def)
qed

lemma markdown_lines_total:
  assumes "renderable res"
  shows "\<exists>ls. markdown_lines r dash res = Inr ls"
proof -
  from assms have a:
    "list_all (\<lambda>cp. dict_list (cp_supporting_quotes cp)) (customer_profiles res)"
    "list_all (\<lambda>pp. hashable (pp_category pp)) (pain_points res)"
    "list_all (\<lambda>q. hashable (q_category q)) (questions res)"
    "dict_list (value_propositions res)" "dict_list (marketing_recommendations res)"
    "dict_list (messaging_guidelines res)" "is_list (conversion_triggers res)"
    by (simp_all add: renderable_def)
  from profiles_section_total[OF a(1)] obtain s1 where s1: "profiles_section r res = Inr s1" ..
  from group_by_total[OF a(2), of "''Sonstiges''" "[]"] obtain g2 where
    "group_by_category pp_category ''Sonstiges'' (pain_points res) = Inr g2"
    by (auto simp: group_by_category_def)
  then have "\<exists>s2. pain_section r dash res = Inr s2"
    by (simp add: pain_section_def)
  then obtain s2 where s2: "pain_section r dash res = Inr s2" ..
  from group_by_total[OF a(3), of "''Allgemein''" "[]"] obtain g3 where
    "group_by_category q_category ''Allgemein'' (questions res) = Inr g3"
    by (auto simp: group_by_category_def)
  then have "\<exists>s3. questions_section r res = Inr s3"
    by (simp add: questions_section_def)
  then obtain s3 where s3: "questions_section r res = Inr s3" ..
  from passthrough_total[OF a(4), of "value_proposition_lines r"] value_proposition_obj obtain s6 where
    s6: "passthrough_section ''## 6. Value Propositions'' (value_proposition_lines r)
          (value_propositions res) = Inr s6" by blast
  from passthrough_total[OF a(5), of "recommendation_lines r"] recommendation_obj obtain s7 where
    s7: "passthrough_section ''## 7. Marketing-Empfehlungen'' (recommendation_lines r)
          (marketing_recommendations res) = Inr s7" by blast
  from passthrough_total[OF a(6), of "guideline_lines r"] guideline_obj obtain s8 where
    s8: "passthrough_section ''## 8. Messaging-Leitfaden'' (guideline_lines r)
          (messaging_guidelines res) = Inr s8" by blast
  from triggers_section_total[OF a(7)] obtain s9 where
    s9: "triggers_section r (conversion_triggers res) = Inr s9" ..
  show ?thesis
    by (simp add: markdown_lines_def s1 s2 s3 s6 s7 s8 s9)
qed

text \<open>
  Claim C8 as stated fails on the document. The renderer copies field texts into the
  document as they are, so a text with a line break in it adds lines of its own: with no
  objection at all and one conversion trigger whose second line reads like the heading of
  the objections section, the document has that heading among its lines.
\<close>

theorem C8_heading_from_field_text:
  "objections ex_trigger_result = [] \<and>
   (case build_markdown (\<lambda>v. []) ''-'' ex_trigger_result of
      Inl e \<Rightarrow> False
    | Inr doc \<Rightarrow> ''## 4. Einwand-Analyse'' \<in> set (split_lines doc))"
  by code_simp

text \<open>
  Claim C8, amended. Rendering returns on every result of the declared types. Whenever it
  returns, the lines the renderer emits contain the heading of a section if and only if
  that section's list is non-empty, the headings of the non-empty sections being the only
  heading lines and standing in the order of the sections; with no objection no emitted
  line is the objections heading, and every objection's \<open>direct_quote\<close> is emitted on a
  blockquote line. The document is the emitted lines joined by newlines, and its lines are
  exactly the emitted ones when no emitted line has a line break in it.
\<close>

theorem C8_section_headings:
  "(renderable res \<longrightarrow> (\<exists>ls. markdown_lines r dash res = Inr ls)) \<and>
   (markdown_lines r dash res = Inr ls \<longrightarrow>
      filter is_heading ls = section_headings res \<and>
      (\<forall>h. is_heading h \<longrightarrow> (h \<in> set ls \<longleftrightarrow> h \<in> set (section_headings res))) \<and>
      (''## 4. Einwand-Analyse'' \<in> set ls \<longleftrightarrow> objections res \<noteq> []) \<and>
      (\<forall>obj\<in>set (objections res).
         (''> \"'' @ py_str r (obj_direct_quote obj) @ ''\"'') \<in> set ls) \<and>
      build_markdown r dash res = Inr (join_lines ls) \<and>
      ((\<forall>l\<in>set ls. CHR 0x0A \<notin> set l) \<longrightarrow> split_lines (join_lines ls) = ls))"
proof (intro conjI impI)
  assume "renderable res"
  then show "\<exists>ls. markdown_lines r dash res = Inr ls"
    by (rule markdown_lines_total)
next
  assume m: "markdown_lines r dash res = Inr ls"
  note f = markdown_lines_headings[OF m]
  show "filter is_heading ls = section_headings res"
    by (rule f)
  show a: "\<forall>h. is_heading h \<longrightarrow> (h \<in> set ls \<longleftrightarrow> h \<in> set (section_headings res))"
  proof (intro allI impI)
    fix h
    assume "is_heading h"
    then have "h \<in> set ls \<longleftrightarrow> h \<in> set (filter is_heading ls)" by simp
    with f show "h \<in> set ls \<longleftrightarrow> h \<in> set (section_headings res)" by simp
  qed
  have "is_heading ''## 4. Einwand-Analyse''" by simp
  with a have "''## 4. Einwand-Analyse'' \<in> set ls
                 \<longleftrightarrow> ''## 4. Einwand-Analyse'' \<in> set (section_headings res)"
    by blast
  also have "\<dots> \<longleftrightarrow> objections res \<noteq> []"
    by (simp add: section_headings_def)
  finally show "''## 4. Einwand-Analyse'' \<in> set ls \<longleftrightarrow> objections res \<noteq> []" .
  show "\<forall>obj\<in>set (objections res).
            (''> \"'' @ py_str r (obj_direct_quote obj) @ ''\"'') \<in> set ls"
    using markdown_lines_objections[OF m] objections_quote_lines by blast
  show "build_markdown r dash res = Inr (join_lines ls)"
    using m by (simp add: build_markdown_def)
  have "ls \<noteq> []"
    using m by (auto simp: markdown_lines_def rbind_Inr_iff header_lines_def)
  then show "split_lines (join_lines ls) = ls" if "\<forall>l\<in>set ls. CHR 0x0A \<notin> set l"
    using that split_join_lines by blast
qed

theorem C8_section_headings_witness:
  "renderable ex_result \<and>
   markdown_lines (\<lambda>v. []) ''-'' ex_result =
     Inr [''# Meeting-Analyse Report'', [], ''**Erstellt:** 15.01.2025 10:30'',
          ''**Analysierte Meetings:** 1'', ''**Lead-Aussagen:** 2'', [], ''---'', [],
          ''## 4. Einwand-Analyse'', [], ''### \"Too expensive\"'', [],
          ''> \"That is a lot of money\"'', ''> - *Bob*'', [], ''**Ursache:** budget'', []] \<and>
   section_headings ex_result = [''## 4. Einwand-Analyse''] \<and>
   (\<exists>doc. build_markdown (\<lambda>v. []) ''-'' ex_result = Inr doc \<and>
      ''## 4. Einwand-Analyse'' \<in> set (split_lines doc) \<and>
      ''> \"That is a lot of money\"'' \<in> set (split_lines doc) \<and>
      ''## 1. Kunden-Insight-Profile'' \<notin> set (split_lines doc))"
proof -
  let ?ls = "[''# Meeting-Analyse Report'', [], ''**Erstellt:** 15.01.2025 10:30'',
          ''**Analysierte Meetings:** 1'', ''**Lead-Aussagen:** 2'', [], ''---'', [],
          ''## 4. Einwand-Analyse'', [], ''### \"Too expensive\"'', [],
          ''> \"That is a lot of money\"'', ''> - *Bob*'', [], ''**Ursache:** budget'', []]"
  have w: "renderable ex_result"
    by code_simp
  have m: "markdown_lines (\<lambda>v. []) ''-'' ex_result = Inr ?ls"
    by code_simp
  have h: "section_headings ex_result = [''## 4. Einwand-Analyse'']"
    by code_simp
  have n: "\<forall>l\<in>set ?ls. CHR 0x0A \<notin> set l"
    by simp
  from C8_section_headings[of ex_result "\<lambda>v. []" "''-''" ?ls] m n
  have d: "build_markdown (\<lambda>v. []) ''-'' ex_result = Inr (join_lines ?ls)"
    and s: "split_lines (join_lines ?ls) = ?ls"
    by blast+
  have "''## 4. Einwand-Analyse'' \<in> set (split_lines (join_lines ?ls)) \<and>
      ''> \"That is a lot of money\"'' \<in> set (split_lines (join_lines ?ls)) \<and>
      ''## 1. Kunden-Insight-Profile'' \<notin> set (split_lines (join_lines ?ls))"
    unfolding s by simp
  with d w m h show ?thesis by blast
qed

end
